theory Spec2Isabelle
  imports Complex_Main "HOL-Library.Log_Nat" "HOL-Library.Monad_Syntax"
begin

section \<open>The D3D11 super-resolution video filter\<close>

text \<open>
  A shallow embedding of \<^verbatim>\<open>vf_d3d11sr.c\<close>: the render-size policy
  \<^verbatim>\<open>get_render_size\<close>, the two vendor adapters, the video processor
  manager (\<^verbatim>\<open>destroy_video_proc\<close>, \<^verbatim>\<open>recreate_video_proc\<close>), the
  per-frame \<^verbatim>\<open>render\<close> and the scheduling entry point
  \<^verbatim>\<open>vf_d3d11sr_process\<close>.

  C \<^verbatim>\<open>int\<close> values are HOL integers; an operation whose C behaviour is
  undefined (signed overflow, a floating-point division by zero, a float to int
  conversion out of range) yields \<open>None\<close>. Calls into Direct3D and into the
  other parts of the player are recorded, in program order, in the field
  \<open>calls\<close> of the state; what those calls answer is read from an environment
  record, one per scheduling cycle.
\<close>

subsection \<open>Single-precision arithmetic\<close>

text \<open>
  \<^verbatim>\<open>get_render_size\<close> computes in \<^verbatim>\<open>float\<close>. A finite binary32 value is
  the rational number it denotes; every operation is the exact operation
  followed by rounding to the nearest binary32 value, ties to even (IEEE 754
  round-to-nearest, the C default, with \<^verbatim>\<open>float\<close> expressions evaluated
  in their own format, as the SSE2 code of the Windows targets does).
\<close>

definition INT_MAX :: int where
  "INT_MAX = 2147483647"

definition INT_MIN :: int where
  "INT_MIN = - 2147483648"

definition pow2 :: "int \<Rightarrow> rat" where
  "pow2 e = (if 0 \<le> e then 2 ^ nat e else 1 / 2 ^ nat (- e))"

text \<open>For \<open>x > 0\<close>, \<open>ilog2 x\<close> is the exponent \<open>e\<close> with \<open>2^e \<le> x < 2^(e+1)\<close>.\<close>

definition ilog2 :: "rat \<Rightarrow> int" where
  "ilog2 x = (case quotient_of x of (p, q) \<Rightarrow>
     (let d = int (floorlog 2 (nat p)) - int (floorlog 2 (nat q))
      in if pow2 d \<le> x then d else d - 1))"

text \<open>Rounding to the nearest integer, ties to the even one.\<close>

definition rne :: "rat \<Rightarrow> int" where
  "rne x = (let n = \<lfloor>x\<rfloor>; r = x - of_int n
            in if r < 1 / 2 then n
               else if 1 / 2 < r then n + 1
               else if even n then n else n + 1)"

text \<open>
  \<open>fl32 x\<close> rounds the exact value \<open>x\<close> to binary32: 24 significant bits,
  least exponent \<open>-126\<close> (below it the spacing stays \<open>2^-149\<close>, the subnormal
  numbers), and \<open>None\<close> when the rounded value is not finite (\<open>2^128\<close> or more).
\<close>

definition fl32 :: "rat \<Rightarrow> rat option" where
  "fl32 x = (if x = 0 then Some 0
     else (let e = max (ilog2 \<bar>x\<bar>) (- 126);
               u = pow2 (e - 23);
               y = of_int (rne (x / u)) * u
           in if \<bar>y\<bar> < pow2 128 then Some y else None))"

text \<open>The conversion \<^verbatim>\<open>(float)i\<close> of an \<^verbatim>\<open>int\<close>.\<close>

definition int_to_float :: "int \<Rightarrow> rat option" where
  "int_to_float i = fl32 (of_int i)"

text \<open>\<^verbatim>\<open>a / b\<close> on floats; a zero divisor is undefined behaviour (C11 6.5.5p5).\<close>

definition float_div :: "rat \<Rightarrow> rat \<Rightarrow> rat option" where
  "float_div a b = (if b = 0 then None else fl32 (a / b))"

definition float_mul :: "rat \<Rightarrow> rat \<Rightarrow> rat option" where
  "float_mul a b = fl32 (a * b)"

text \<open>
  The conversion \<^verbatim>\<open>(int)x\<close> of a float discards the fractional part
  (truncation toward zero); it is undefined when the integral part does not fit
  an \<^verbatim>\<open>int\<close> (C11 6.3.1.4p1).
\<close>

definition trunc :: "rat \<Rightarrow> int" where
  "trunc x = (if 0 \<le> x then \<lfloor>x\<rfloor> else \<lceil>x\<rceil>)"

definition float_to_int :: "rat \<Rightarrow> int option" where
  "float_to_int x = (let t = trunc x in if INT_MIN \<le> t \<and> t \<le> INT_MAX then Some t else None)"

text \<open>\<^verbatim>\<open>a * b\<close> on \<^verbatim>\<open>int\<close>; signed overflow is undefined behaviour.\<close>

definition int_mul :: "int \<Rightarrow> int \<Rightarrow> int option" where
  "int_mul a b = (if INT_MIN \<le> a * b \<and> a * b \<le> INT_MAX then Some (a * b) else None)"

subsection \<open>The render-size policy\<close>

text \<open>
  \<^verbatim>\<open>get_render_size\<close> (lines 148 to 169). The two results written through
  \<^verbatim>\<open>out_w\<close> and \<^verbatim>\<open>out_h\<close> are returned as a pair.
\<close>

definition get_render_size :: "int \<Rightarrow> int \<Rightarrow> int \<Rightarrow> int \<Rightarrow> (int \<times> int) option" where
  "get_render_size input_w input_h window_w window_h =
     (if input_w > window_w \<or> input_h > window_h then Some (input_w, input_h)
      else do {
        fw \<leftarrow> int_to_float input_w;
        fh \<leftarrow> int_to_float input_h;
        aspect_ratio \<leftarrow> float_div fw fh;
        ww \<leftarrow> int_to_float window_w;
        q \<leftarrow> float_div ww aspect_ratio;
        out_h \<leftarrow> float_to_int q;
        if out_h > window_h then do {
          wh \<leftarrow> int_to_float window_h;
          m \<leftarrow> float_mul wh aspect_ratio;
          out_w \<leftarrow> float_to_int m;
          Some (out_w, window_h)
        } else Some (window_w, out_h)
      })"

text \<open>
  The policy as the specification words it (section 4.1), in exact arithmetic with
  rounding to the nearest integer; kept apart from the code's function, to be
  compared with it.
\<close>

definition renderSize_spec :: "int \<Rightarrow> int \<Rightarrow> int \<Rightarrow> int \<Rightarrow> int \<times> int" where
  "renderSize_spec inputW inputH targetW targetH =
     (if inputW > targetW \<or> inputH > targetH then (inputW, inputH)
      else (let aspect = (of_int inputW :: rat) / of_int inputH;
                outH = round (of_int targetW / aspect)
            in if outH > targetH then (round (of_int targetH * aspect), targetH)
               else (targetW, outH)))"

text \<open>
  The same policy with the fractional part of each result discarded instead of
  rounded, still in exact arithmetic; it differs from \<open>renderSize_spec\<close> only in
  \<open>\<lfloor>_\<rfloor>\<close> for \<open>round\<close>, and is likewise kept apart from the code's function.
\<close>

definition renderSize_trunc :: "int \<Rightarrow> int \<Rightarrow> int \<Rightarrow> int \<Rightarrow> int \<times> int" where
  "renderSize_trunc inputW inputH targetW targetH =
     (if inputW > targetW \<or> inputH > targetH then (inputW, inputH)
      else (let aspect = (of_int inputW :: rat) / of_int inputH;
                outH = \<lfloor>of_int targetW / aspect\<rfloor>
            in if outH > targetH then (\<lfloor>of_int targetH * aspect\<rfloor>, targetH)
               else (targetW, outH)))"

text \<open>
  The two single-precision operations behind each result of
  \<^verbatim>\<open>get_render_size\<close> move it by less than one part in \<open>2^22\<close> of the
  exact value. \<open>clear_of_integers x\<close> says that no whole number lies that close
  to \<open>x\<close>, so that every value within that distance of \<open>x\<close> has the integer
  part of \<open>x\<close>.
\<close>

definition clear_of_integers :: "rat \<Rightarrow> bool" where
  "clear_of_integers x \<longleftrightarrow>
     of_int \<lfloor>x\<rfloor> \<le> x - x / 4194304 \<and> x + x / 4194304 < of_int \<lfloor>x\<rfloor> + 1"

subsection \<open>Options, images and the filter state\<close>

datatype sr_mode = SUPER_RESOLUTION_OFF | SUPER_RESOLUTION_NVIDIA | SUPER_RESOLUTION_INTEL

datatype sr_scale =
    SUPER_RESOLUTION_AUTO | SUPER_RESOLUTION_720P | SUPER_RESOLUTION_1080P
  | SUPER_RESOLUTION_1440P | SUPER_RESOLUTION_2160P | SUPER_RESOLUTION_2X | SUPER_RESOLUTION_3X

record opts =
  mode :: sr_mode
  scale :: sr_scale

datatype imgfmt = IMGFMT_NONE | IMGFMT_420P | IMGFMT_NV12 | IMGFMT_D3D11

datatype dxgi_format = DXGI_FORMAT_UNKNOWN | DXGI_FORMAT_NV12

datatype pl_color_system = PL_COLOR_SYSTEM_UNKNOWN | PL_COLOR_SYSTEM_BT_601 | PL_COLOR_SYSTEM_BT_709

datatype pl_color_levels = PL_COLOR_LEVELS_UNKNOWN | PL_COLOR_LEVELS_LIMITED | PL_COLOR_LEVELS_FULL

text \<open>
  \<^verbatim>\<open>struct mp_image_params\<close> and \<^verbatim>\<open>struct mp_image\<close> are declared in
  \<^verbatim>\<open>video/mp_image.h\<close>; the records hold the members this file reads or
  writes. For a GPU-resident image \<open>img_tex_w\<close>, \<open>img_tex_h\<close> are the
  dimensions of the texture in \<^verbatim>\<open>planes[0]\<close> (what
  \<^verbatim>\<open>ID3D11Texture2D_GetDesc\<close> reports) and \<open>img_subindex\<close> is
  \<^verbatim>\<open>planes[1]\<close>; \<open>img_id\<close> names the pixel buffers, which a new reference
  shares.
\<close>

record mp_image_params =
  par_imgfmt :: imgfmt
  par_hw_subfmt :: imgfmt
  par_w :: int
  par_h :: int
  par_crop :: "int \<times> int \<times> int \<times> int"
  par_sys :: pl_color_system
  par_levels :: pl_color_levels

record mp_image =
  img_id :: nat
  img_imgfmt :: imgfmt
  img_w :: int
  img_h :: int
  img_params :: mp_image_params
  img_pts :: int
  img_tex_w :: nat
  img_tex_h :: nat
  img_subindex :: int

datatype vendor_guid = kNvidiaPPEInterfaceGUID | GUID_INTEL_VPE_INTERFACE

text \<open>The calls the filter makes into Direct3D and into the rest of the player.\<close>

datatype call =
    Pool_clear
  | Pool_get int int
  | Refqueue_get
  | Image_new_ref
  | Write_out_pin "mp_image option"
  | Mark_failed
  | MP_ERR string
  | MP_WARN string
  | VideoProcessor_Release nat
  | VideoProcessorEnumerator_Release nat
  | CreateVideoProcessorEnumerator int int int int
  | GetVideoProcessorCaps
  | CreateVideoProcessor
  | SetStreamSourceRect int int
  | SetStreamAutoProcessingMode bool
  | SetStreamOutputRate
  | SetStreamColorSpace bool nat
  | SetOutputColorSpace bool nat
  | CreateTexture2D int int
  | Map_texture
  | Unmap_texture
  | Image_copy_attributes
  | SetStreamFrameFormat
  | CreateVideoProcessorInputView int
  | CreateVideoProcessorOutputView
  | SetStreamExtension vendor_guid "nat list"
  | SetOutputExtension vendor_guid "nat list"
  | VideoProcessorBlt bool
  | InputView_Release
  | OutputView_Release
  | Image_free

text \<open>
  What the collaborators answer during one scheduling cycle: the buffering
  queue (\<^verbatim>\<open>mp_refqueue_execute_reinit\<close>, \<^verbatim>\<open>mp_refqueue_can_output\<close>,
  \<^verbatim>\<open>mp_refqueue_get(queue, 0)\<close>, \<^verbatim>\<open>mp_refqueue_is_second_field\<close>), whether
  \<^verbatim>\<open>mp_image_new_ref\<close> succeeds, the surface \<^verbatim>\<open>mp_image_pool_get\<close> hands
  out (\<open>None\<close> for \<^verbatim>\<open>NULL\<close>), and the \<^verbatim>\<open>HRESULT\<close> of each Direct3D call
  (for the two creating calls the new handle, \<open>None\<close> on failure).
\<close>

record env =
  execute_reinit :: "mp_image option"
  can_output :: bool
  refqueue_get :: "mp_image option"
  new_ref_ok :: bool
  pool_get :: "nat option"
  is_second_field :: bool
  hr_create_enumerator :: "nat option"
  hr_get_caps :: bool
  hr_create_processor :: "nat option"
  hr_input_view :: bool
  hr_output_view :: bool
  hr_nvidia_extension :: bool
  hr_vpe_version :: bool
  hr_vpe_mode :: bool
  hr_vpe_scaling :: bool
  hr_blt :: bool

text \<open>
  \<^verbatim>\<open>struct priv\<close> (the processor, its enumerator, the parameters, the recorded
  source size \<open>c_w\<close>, \<open>c_h\<close>), together with what the filter leaves in its
  collaborators: the surfaces the pool has issued since it was last cleared, the
  failed mark of the filter, the frames written to the output pin, and the calls
  made so far.
\<close>

record vf_state =
  opts :: opts
  video_proc :: "nat option"
  vp_enum :: "nat option"
  out_format :: dxgi_format
  params :: mp_image_params
  out_params :: mp_image_params
  c_w :: int
  c_h :: int
  pool :: "nat list"
  failed :: bool
  out_pin :: "mp_image list"
  calls :: "call list"

definition do_call :: "call \<Rightarrow> vf_state \<Rightarrow> vf_state" where
  "do_call c s = s\<lparr>calls := calls s @ [c]\<rparr>"

subsection \<open>Collaborators that are not part of this file\<close>

text \<open>
  Modelled from the spec: \<^verbatim>\<open>mp_filter_internal_mark_failed\<close> (\<^verbatim>\<open>filters/filter.c\<close>
  is not among the sources). Section 4.6 step 3 and section 7: the stream is
  marked failed, a terminal condition.
\<close>

definition mp_filter_internal_mark_failed :: "vf_state \<Rightarrow> vf_state" where
  "mp_filter_internal_mark_failed s = (do_call Mark_failed s)\<lparr>failed := True\<rparr>"

text \<open>
  Modelled from the spec: \<^verbatim>\<open>mp_refqueue_write_out_pin\<close> (\<^verbatim>\<open>video/filter/refqueue.c\<close>
  is not among the sources). Section 4.6 step 5 and section 6: the result,
  possibly absent, is submitted to the output; an absent result emits nothing
  this cycle and is not an error.
\<close>

definition mp_refqueue_write_out_pin :: "mp_image option \<Rightarrow> vf_state \<Rightarrow> vf_state" where
  "mp_refqueue_write_out_pin mpi s =
     (do_call (Write_out_pin mpi) s)
       \<lparr>out_pin := out_pin s @ (case mpi of None \<Rightarrow> [] | Some i \<Rightarrow> [i])\<rparr>"

text \<open>
  Modelled from the spec: \<^verbatim>\<open>mp_image_pool_clear\<close> (\<^verbatim>\<open>video/mp_image_pool.c\<close> is not
  among the sources). Section 3: the pool is cleared in full on every reinit.
\<close>

definition mp_image_pool_clear :: "vf_state \<Rightarrow> vf_state" where
  "mp_image_pool_clear s = (do_call Pool_clear s)\<lparr>pool := []\<rparr>"

text \<open>
  Modelled from the spec: \<^verbatim>\<open>mp_image_pool_get\<close> with the allocator
  \<^verbatim>\<open>alloc_pool\<close> of this file (lines 94 to 126). Section 4.5 step 1: a surface
  of the requested size, or nothing. The image wraps the surface the pool
  answers with, in the GPU-resident format, with the subformat of the output
  parameters.
\<close>

definition mp_image_pool_get :: "env \<Rightarrow> int \<Rightarrow> int \<Rightarrow> vf_state \<Rightarrow> mp_image option \<times> vf_state" where
  "mp_image_pool_get e width height s =
     (let s1 = do_call (Pool_get width height) s
      in case pool_get e of
           None \<Rightarrow> (None, s1)
         | Some tex \<Rightarrow>
             (Some \<lparr>img_id = tex, img_imgfmt = IMGFMT_D3D11, img_w = width, img_h = height,
                    img_params = \<lparr>par_imgfmt = IMGFMT_D3D11,
                                  par_hw_subfmt = par_hw_subfmt (out_params s),
                                  par_w = width, par_h = height,
                                  par_crop = (0, 0, width, height),
                                  par_sys = PL_COLOR_SYSTEM_UNKNOWN,
                                  par_levels = PL_COLOR_LEVELS_UNKNOWN\<rparr>,
                    img_pts = 0, img_tex_w = nat width, img_tex_h = nat height,
                    img_subindex = 0\<rparr>,
              s1\<lparr>pool := pool s1 @ [tex]\<rparr>))"

text \<open>
  Modelled from the spec: \<^verbatim>\<open>mp_image_set_size\<close> and
  \<^verbatim>\<open>mp_image_copy_attributes\<close> (\<^verbatim>\<open>video/mp_image.c\<close> is not among the sources).
  Section 4.5 step 4: the copy carries timestamps and colour information from
  the input and overwrites the destination's dimensions and crop rectangle with
  the input's.
\<close>

definition mp_image_set_size :: "mp_image \<Rightarrow> int \<Rightarrow> int \<Rightarrow> mp_image" where
  "mp_image_set_size mpi width height =
     mpi\<lparr>img_w := width, img_h := height,
         img_params := (img_params mpi)\<lparr>par_w := width, par_h := height\<rparr>\<rparr>"

definition mp_image_copy_attributes :: "mp_image \<Rightarrow> mp_image \<Rightarrow> mp_image" where
  "mp_image_copy_attributes dst src =
     dst\<lparr>img_pts := img_pts src, img_w := img_w src, img_h := img_h src,
         img_params := (img_params dst)
           \<lparr>par_w := par_w (img_params src), par_h := par_h (img_params src),
            par_crop := par_crop (img_params src),
            par_sys := par_sys (img_params src),
            par_levels := par_levels (img_params src)\<rparr>\<rparr>"

subsection \<open>The video processor manager\<close>

text \<open>\<^verbatim>\<open>destroy_video_proc\<close> (lines 134 to 145).\<close>

definition destroy_video_proc :: "vf_state \<Rightarrow> vf_state" where
  "destroy_video_proc s =
     (let s1 = (case video_proc s of
                  Some h \<Rightarrow> do_call (VideoProcessor_Release h) s
                | None \<Rightarrow> s);
          s2 = s1\<lparr>video_proc := None\<rparr>;
          s3 = (case vp_enum s2 of
                  Some h \<Rightarrow> do_call (VideoProcessorEnumerator_Release h) s2
                | None \<Rightarrow> s2)
      in s3\<lparr>vp_enum := None\<rparr>)"

text \<open>
  \<^verbatim>\<open>recreate_video_proc\<close> (lines 277 to 346); the result is the returned
  \<^verbatim>\<open>int\<close> (0, or -1 after \<^verbatim>\<open>goto fail\<close>) and the new state.
\<close>

definition recreate_video_proc :: "env \<Rightarrow> vf_state \<Rightarrow> int \<times> vf_state" where
  "recreate_video_proc e s =
     (let s0 = destroy_video_proc s;
          s1 = do_call (CreateVideoProcessorEnumerator (c_w s0) (c_h s0)
                          (par_w (out_params s0)) (par_h (out_params s0))) s0
      in case hr_create_enumerator e of
           None \<Rightarrow> (- 1, destroy_video_proc s1)
         | Some en \<Rightarrow>
             (let s2 = do_call GetVideoProcessorCaps (s1\<lparr>vp_enum := Some en\<rparr>)
              in if \<not> hr_get_caps e then (- 1, destroy_video_proc s2)
                 else (let s3 = do_call CreateVideoProcessor s2
                       in case hr_create_processor e of
                            None \<Rightarrow>
                              (- 1, destroy_video_proc
                                      (do_call (MP_ERR ''Failed to create D3D11 video processor.'') s3))
                          | Some pr \<Rightarrow>
                              (let s4 = s3\<lparr>video_proc := Some pr\<rparr>;
                                   s5 = do_call (SetStreamSourceRect (par_w (params s4))
                                                   (par_h (params s4))) s4;
                                   s6 = do_call (SetStreamAutoProcessingMode False) s5;
                                   s7 = do_call SetStreamOutputRate s6;
                                   YCbCr_Matrix = (par_sys (params s7) \<noteq> PL_COLOR_SYSTEM_BT_601);
                                   Nominal_Range =
                                     (if par_levels (params s7) = PL_COLOR_LEVELS_LIMITED
                                      then 1 else 2);
                                   s8 = do_call (SetStreamColorSpace YCbCr_Matrix Nominal_Range) s7;
                                   s9 = do_call (SetOutputColorSpace YCbCr_Matrix Nominal_Range) s8
                               in (0, s9)))))"

subsection \<open>The vendor adapters\<close>

definition kStreamExtensionVersionV1 :: nat where
  "kStreamExtensionVersionV1 = 1"

definition kStreamExtensionMethodSuperResolution :: nat where
  "kStreamExtensionMethodSuperResolution = 2"

definition kIntelVpeFnVersion :: nat where
  "kIntelVpeFnVersion = 1"

definition kIntelVpeFnMode :: nat where
  "kIntelVpeFnMode = 32"

definition kIntelVpeFnScaling :: nat where
  "kIntelVpeFnScaling = 55"

definition kIntelVpeVersion3 :: nat where
  "kIntelVpeVersion3 = 3"

definition kIntelVpeModePreproc :: nat where
  "kIntelVpeModePreproc = 1"

definition kIntelVpeScalingSuperResolution :: nat where
  "kIntelVpeScalingSuperResolution = 2"

text \<open>
  \<^verbatim>\<open>SetSuperResNvidia\<close> (lines 171 to 197): one stream extension carrying
  version, method and the enable flag.
\<close>

definition SetSuperResNvidia :: "env \<Rightarrow> vf_state \<Rightarrow> vf_state" where
  "SetSuperResNvidia e s =
     (let s1 = do_call (SetStreamExtension kNvidiaPPEInterfaceGUID
                          [kStreamExtensionVersionV1, kStreamExtensionMethodSuperResolution, 1]) s
      in if \<not> hr_nvidia_extension e
         then do_call (MP_ERR ''Failed to enable Nvidia RTX Super RES.'') s1
         else s1)"

text \<open>
  \<^verbatim>\<open>SetSuperResIntel\<close> (lines 199 to 275): each extension carries the function
  code and its parameter; a failed call logs and returns.
\<close>

definition SetSuperResIntel :: "env \<Rightarrow> vf_state \<Rightarrow> vf_state" where
  "SetSuperResIntel e s =
     (let s1 = do_call (SetOutputExtension GUID_INTEL_VPE_INTERFACE
                          [kIntelVpeFnVersion, kIntelVpeVersion3]) s
      in if \<not> hr_vpe_version e
         then do_call (MP_ERR ''Failed to enable Intel RES.'') s1
         else (let s2 = do_call (SetOutputExtension GUID_INTEL_VPE_INTERFACE
                                   [kIntelVpeFnMode, kIntelVpeModePreproc]) s1
               in if \<not> hr_vpe_mode e
                  then do_call (MP_ERR ''Failed to enable Intel RES.'') s2
                  else (let s3 = do_call (SetStreamExtension GUID_INTEL_VPE_INTERFACE
                                            [kIntelVpeFnScaling, kIntelVpeScalingSuperResolution]) s2
                        in if \<not> hr_vpe_scaling e
                           then do_call (MP_ERR ''Failed to enable Intel RES.'') s3
                           else s3)))"

text \<open>The \<^verbatim>\<open>switch\<close> on the mode inside \<^verbatim>\<open>render\<close> (lines 476 to 483).\<close>

definition vendor_adapter :: "env \<Rightarrow> vf_state \<Rightarrow> vf_state" where
  "vendor_adapter e s =
     (case mode (opts s) of
        SUPER_RESOLUTION_NVIDIA \<Rightarrow> SetSuperResNvidia e s
      | SUPER_RESOLUTION_INTEL \<Rightarrow> SetSuperResIntel e s
      | SUPER_RESOLUTION_OFF \<Rightarrow> s)"

subsection \<open>The render pipeline\<close>

text \<open>
  The \<^verbatim>\<open>cleanup\<close> label of \<^verbatim>\<open>render\<close> (lines 492 to 499): the two views
  are released when they exist, and on failure (\<open>res < 0\<close>) the output image is
  freed and \<^verbatim>\<open>NULL\<close> is returned.
\<close>

definition cleanup :: "bool \<Rightarrow> bool \<Rightarrow> int \<Rightarrow> mp_image option \<Rightarrow> vf_state \<Rightarrow> mp_image option \<times> vf_state" where
  "cleanup in_view out_view res out s =
     (let s1 = (if in_view then do_call InputView_Release s else s);
          s2 = (if out_view then do_call OutputView_Release s1 else s1)
      in if res < 0
         then (None, (case out of None \<Rightarrow> s2 | Some _ \<Rightarrow> do_call Image_free s2))
         else (out, s2))"

text \<open>
  The input surface of \<^verbatim>\<open>render\<close> (lines 368 to 417): for a planar 4:2:0
  frame a texture of the frame's size is created, mapped, filled and unmapped
  (the copy of the pixel rows is not modelled; the result of the creation is not
  checked by the source); a GPU-resident frame brings its own texture and
  subresource index. The result is the width and height that
  \<^verbatim>\<open>ID3D11Texture2D_GetDesc\<close> reports for the texture, and the subindex.
\<close>

definition input_surface :: "mp_image \<Rightarrow> vf_state \<Rightarrow> (nat \<times> nat \<times> int) \<times> vf_state" where
  "input_surface inp s =
     (if img_imgfmt inp = IMGFMT_420P
      then ((nat (img_w inp), nat (img_h inp), 0),
            do_call Unmap_texture
              (do_call Map_texture (do_call (CreateTexture2D (img_w inp) (img_h inp)) s)))
      else ((img_tex_w inp, img_tex_h inp, img_subindex inp), s))"

text \<open>
  The end of \<^verbatim>\<open>render\<close> (lines 440 to 499), once the processor is in place:
  frame format, the two views, the vendor adapter, the processing submission,
  and \<^verbatim>\<open>cleanup\<close>. \<open>out\<close> is the output image, \<open>d3d_subindex\<close> the
  subresource index of the input surface.
\<close>

definition render_submit :: "env \<Rightarrow> int \<Rightarrow> mp_image \<Rightarrow> vf_state \<Rightarrow> mp_image option \<times> vf_state" where
  "render_submit e d3d_subindex out s5 =
     (let s6 = do_call SetStreamFrameFormat s5;
          s7 = do_call (CreateVideoProcessorInputView d3d_subindex) s6
      in if \<not> hr_input_view e
         then cleanup False False (- 1) (Some out)
                (do_call (MP_ERR ''Could not create ID3D11VideoProcessorInputView'') s7)
         else
     (let s8 = do_call CreateVideoProcessorOutputView s7
      in if \<not> hr_output_view e
         then cleanup True False (- 1) (Some out)
                (do_call (MP_ERR ''Could not create ID3D11VideoProcessorOutputView'') s8)
         else
     (let frame = is_second_field e;
          s9 = vendor_adapter e s8;
          s10 = do_call (VideoProcessorBlt frame) s9
      in if \<not> hr_blt e
         then cleanup True True (- 1) (Some out) (do_call (MP_ERR ''VideoProcessorBlt failed.'') s10)
         else cleanup True True 0 (Some out) s10)))"

text \<open>
  The middle of \<^verbatim>\<open>render\<close> (lines 368 to 438), for the pool image \<open>out0\<close>
  and the input frame \<open>inp\<close>: the input surface, the copy of the attributes
  (with the output size and crop restored when a mode is on), and the rebuild
  of the processor when there is none or the recorded size differs from the
  surface's; then the submission.
\<close>

definition render_frame :: "env \<Rightarrow> mp_image \<Rightarrow> mp_image \<Rightarrow> vf_state \<Rightarrow> mp_image option \<times> vf_state" where
  "render_frame e out0 inp s2 =
     (case input_surface inp s2 of ((Width, Height, d3d_subindex), s3) \<Rightarrow>
     (let bakup_crop = par_crop (img_params out0);
          out1 = mp_image_copy_attributes out0 inp;
          s4 = do_call Image_copy_attributes s3;
          out = (if mode (opts s4) \<noteq> SUPER_RESOLUTION_OFF
                 then (let out2 = mp_image_set_size out1 (par_w (out_params s4)) (par_h (out_params s4))
                       in out2\<lparr>img_params := (img_params out2)\<lparr>par_crop := bakup_crop\<rparr>\<rparr>)
                 else out1);
          (res1, s5) =
            (if video_proc s4 = None \<or> c_w s4 \<noteq> int Width \<or> c_h s4 \<noteq> int Height
             then recreate_video_proc e (s4\<lparr>c_w := int Width, c_h := int Height\<rparr>)
             else (0, s4))
      in if res1 < 0 then cleanup False False (- 1) (Some out) s5
         else render_submit e d3d_subindex out s5))"

text \<open>\<^verbatim>\<open>render\<close> (lines 348 to 500).\<close>

definition render :: "env \<Rightarrow> vf_state \<Rightarrow> mp_image option \<times> vf_state" where
  "render e s =
     (case mp_image_pool_get e (par_w (out_params s)) (par_h (out_params s)) s of
        (None, s1) \<Rightarrow> cleanup False False (- 1) None (do_call (MP_WARN ''failed to allocate frame'') s1)
      | (Some out0, s1) \<Rightarrow>
          (let s2 = do_call Refqueue_get s1
           in case refqueue_get e of
                None \<Rightarrow> cleanup False False (- 1) (Some out0) s2
              | Some inp \<Rightarrow> render_frame e out0 inp s2))"

subsection \<open>The filter state machine\<close>

text \<open>
  The \<^verbatim>\<open>switch\<close> on the scale option inside \<^verbatim>\<open>vf_d3d11sr_process\<close> (lines
  514 to 540): the window the render size is computed against.
\<close>

definition scale_window :: "sr_scale \<Rightarrow> mp_image \<Rightarrow> (int \<times> int) option" where
  "scale_window sc in_fmt =
     (case sc of
        SUPER_RESOLUTION_720P \<Rightarrow> Some (1280, 720)
      | SUPER_RESOLUTION_AUTO \<Rightarrow> Some (1920, 1080)
      | SUPER_RESOLUTION_1080P \<Rightarrow> Some (1920, 1080)
      | SUPER_RESOLUTION_1440P \<Rightarrow> Some (2560, 1440)
      | SUPER_RESOLUTION_2160P \<Rightarrow> Some (3840, 2160)
      | SUPER_RESOLUTION_2X \<Rightarrow>
          do { window_w \<leftarrow> int_mul 2 (img_w in_fmt);
               window_h \<leftarrow> int_mul 2 (img_h in_fmt);
               Some (window_w, window_h) }
      | SUPER_RESOLUTION_3X \<Rightarrow>
          do { window_w \<leftarrow> int_mul 3 (img_w in_fmt);
               window_h \<leftarrow> int_mul 3 (img_h in_fmt);
               Some (window_w, window_h) })"

text \<open>
  The first part of \<^verbatim>\<open>vf_d3d11sr_process\<close> (lines 505 to 546): what is done
  when the queue reports a reinit. \<open>None\<close> is undefined behaviour in the
  computation of the output size.
\<close>

definition process_reinit :: "env \<Rightarrow> vf_state \<Rightarrow> vf_state option" where
  "process_reinit e s =
     (case execute_reinit e of
        None \<Rightarrow> Some s
      | Some in_fmt \<Rightarrow>
          (let s1 = destroy_video_proc (mp_image_pool_clear s);
               s2 = s1\<lparr>params := img_params in_fmt\<rparr>;
               s3 = s2\<lparr>out_params := params s2\<rparr>
           in if mode (opts s3) \<noteq> SUPER_RESOLUTION_OFF
              then do {
                (window_w, window_h) \<leftarrow> scale_window (scale (opts s3)) in_fmt;
                (out_w, out_h) \<leftarrow> get_render_size (par_w (params s3)) (par_h (params s3))
                                     window_w window_h;
                Some (s3\<lparr>out_params := (out_params s3)
                             \<lparr>par_w := out_w, par_h := out_h, par_hw_subfmt := IMGFMT_NV12\<rparr>,
                         out_format := DXGI_FORMAT_NV12\<rparr>)
              }
              else Some s3))"

text \<open>
  The second part of \<^verbatim>\<open>vf_d3d11sr_process\<close> (lines 548 to 566): the
  buffering check, the parity check, and pass-through or render. The C test
  \<^verbatim>\<open>w % 2 || h % 2\<close> holds exactly when one of the two is odd.
\<close>

definition process_output :: "env \<Rightarrow> vf_state \<Rightarrow> vf_state" where
  "process_output e s =
     (if \<not> can_output e then s
      else if par_w (params s) mod 2 \<noteq> 0 \<or> par_h (params s) mod 2 \<noteq> 0
      then mp_filter_internal_mark_failed
             (do_call (MP_ERR ''Cannot process video when width or height is uneven value'') s)
      else if mode (opts s) = SUPER_RESOLUTION_OFF
      then (let s1 = do_call Image_new_ref (do_call Refqueue_get s)
            in case (if new_ref_ok e then refqueue_get e else None) of
                 None \<Rightarrow> mp_filter_internal_mark_failed s1
               | Some inp \<Rightarrow> mp_refqueue_write_out_pin (Some inp) s1)
      else (case render e s of (mpi, s1) \<Rightarrow> mp_refqueue_write_out_pin mpi s1))"

text \<open>\<^verbatim>\<open>vf_d3d11sr_process\<close> (lines 502 to 567), one scheduling cycle.\<close>

definition vf_d3d11sr_process :: "env \<Rightarrow> vf_state \<Rightarrow> vf_state option" where
  "vf_d3d11sr_process e s = do { s1 \<leftarrow> process_reinit e s; Some (process_output e s1) }"

text \<open>A sequence of scheduling cycles, one environment each.\<close>

fun run :: "env list \<Rightarrow> vf_state \<Rightarrow> vf_state option" where
  "run [] s = Some s"
| "run (e # es) s = (case vf_d3d11sr_process e s of None \<Rightarrow> None | Some s1 \<Rightarrow> run es s1)"

subsection \<open>Construction\<close>

text \<open>
  \<^verbatim>\<open>vf_d3d11sr_create\<close> (lines 600 to 666): every acquisition that fails
  refuses the construction (\<^verbatim>\<open>NULL\<close>); otherwise the private data is the
  zeroed \<^verbatim>\<open>struct priv\<close> holding the options.
\<close>

record bind_env =
  filter_created :: bool
  stream_info_found :: bool
  hwdec_ctx_found :: bool
  query_video_device_ok :: bool
  immediate_context_found :: bool
  query_video_context_ok :: bool

definition zero_params :: mp_image_params where
  "zero_params = \<lparr>par_imgfmt = IMGFMT_NONE, par_hw_subfmt = IMGFMT_NONE, par_w = 0, par_h = 0,
                  par_crop = (0, 0, 0, 0), par_sys = PL_COLOR_SYSTEM_UNKNOWN,
                  par_levels = PL_COLOR_LEVELS_UNKNOWN\<rparr>"

definition vf_d3d11sr_create :: "bind_env \<Rightarrow> opts \<Rightarrow> vf_state option" where
  "vf_d3d11sr_create b options =
     (if \<not> filter_created b then None
      else if \<not> stream_info_found b then None
      else if \<not> hwdec_ctx_found b then None
      else if \<not> query_video_device_ok b then None
      else if \<not> immediate_context_found b then None
      else if \<not> query_video_context_ok b then None
      else Some \<lparr>opts = options, video_proc = None, vp_enum = None,
                 out_format = DXGI_FORMAT_UNKNOWN, params = zero_params,
                 out_params = zero_params, c_w = 0, c_h = 0, pool = [], failed = False,
                 out_pin = [], calls = []\<rparr>)"

subsection \<open>Observations on a cycle\<close>

text \<open>
  The calls that allocate on the GPU or drive the video processor: taking a
  surface from the output pool, creating textures, enumerators, processors and
  views, configuring the processor, and the processing submission. Releasing
  an object, clearing the pool, queue traffic and logging are not among them.
\<close>

fun gpu_work :: "call \<Rightarrow> bool" where
  "gpu_work (Pool_get _ _) = True"
| "gpu_work (CreateVideoProcessorEnumerator _ _ _ _) = True"
| "gpu_work GetVideoProcessorCaps = True"
| "gpu_work CreateVideoProcessor = True"
| "gpu_work (SetStreamSourceRect _ _) = True"
| "gpu_work (SetStreamAutoProcessingMode _) = True"
| "gpu_work SetStreamOutputRate = True"
| "gpu_work (SetStreamColorSpace _ _) = True"
| "gpu_work (SetOutputColorSpace _ _) = True"
| "gpu_work (CreateTexture2D _ _) = True"
| "gpu_work Map_texture = True"
| "gpu_work Unmap_texture = True"
| "gpu_work SetStreamFrameFormat = True"
| "gpu_work (CreateVideoProcessorInputView _) = True"
| "gpu_work CreateVideoProcessorOutputView = True"
| "gpu_work (SetStreamExtension _ _) = True"
| "gpu_work (SetOutputExtension _ _) = True"
| "gpu_work (VideoProcessorBlt _) = True"
| "gpu_work _ = False"

text \<open>
  Every run of \<^verbatim>\<open>recreate_video_proc\<close> makes exactly one call of
  \<^verbatim>\<open>CreateVideoProcessorEnumerator\<close>, and nothing else makes one: the number
  of rebuilds in a call log is the number of these calls.
\<close>

fun is_rebuild :: "call \<Rightarrow> bool" where
  "is_rebuild (CreateVideoProcessorEnumerator _ _ _ _) = True"
| "is_rebuild _ = False"

definition rebuilds :: "call list \<Rightarrow> nat" where
  "rebuilds cs = length (filter is_rebuild cs)"

text \<open>The calls that release the video processor or its enumerator.\<close>

fun is_release :: "call \<Rightarrow> bool" where
  "is_release (VideoProcessor_Release _) = True"
| "is_release (VideoProcessorEnumerator_Release _) = True"
| "is_release _ = False"

text \<open>
  The size of the input surface of a frame, as \<^verbatim>\<open>render\<close> reads it from the
  texture description (first two components of \<open>input_surface\<close>), and the
  test of line 432 that triggers the rebuild.
\<close>

definition surface_size :: "mp_image \<Rightarrow> int \<times> int" where
  "surface_size inp =
     (if img_imgfmt inp = IMGFMT_420P then (int (nat (img_w inp)), int (nat (img_h inp)))
      else (int (img_tex_w inp), int (img_tex_h inp)))"

definition rebuild_needed :: "vf_state \<Rightarrow> mp_image \<Rightarrow> bool" where
  "rebuild_needed s inp \<longleftrightarrow>
     video_proc s = None \<or> c_w s \<noteq> fst (surface_size inp) \<or> c_h s \<noteq> snd (surface_size inp)"

text \<open>One of the three fallible steps of \<^verbatim>\<open>recreate_video_proc\<close> fails.\<close>

definition rebuild_fails :: "env \<Rightarrow> bool" where
  "rebuild_fails e \<longleftrightarrow>
     hr_create_enumerator e = None \<or> \<not> hr_get_caps e \<or> hr_create_processor e = None"

text \<open>
  A cycle gets as far as the rebuild test of \<^verbatim>\<open>render\<close>: there is enough
  input, the size is even, a super-resolution mode is on, the pool hands out a
  surface and the queue has a frame.
\<close>

definition reaches_render :: "env \<Rightarrow> vf_state \<Rightarrow> bool" where
  "reaches_render e s \<longleftrightarrow>
     can_output e \<and> par_w (params s) mod 2 = 0 \<and> par_h (params s) mod 2 = 0 \<and>
     mode (opts s) \<noteq> SUPER_RESOLUTION_OFF \<and> pool_get e \<noteq> None \<and> refqueue_get e \<noteq> None"

text \<open>
  The surface sizes of the frames that reach the rebuild test, over a sequence
  of cycles without reinit (size parity and mode do not change in between).
\<close>

definition seen_sizes :: "vf_state \<Rightarrow> env list \<Rightarrow> (int \<times> int) list" where
  "seen_sizes s es =
     map (\<lambda>e. surface_size (the (refqueue_get e))) (filter (\<lambda>e. reaches_render e s) es)"

text \<open>
  The source size the processor is recorded for, when there is a processor; and
  the number of positions in a sequence of sizes at which the size differs from
  the one before it (from \<open>prev\<close> for the first).
\<close>

definition recorded_size :: "vf_state \<Rightarrow> (int \<times> int) option" where
  "recorded_size s = (if video_proc s = None then None else Some (c_w s, c_h s))"

fun size_changes :: "(int \<times> int) option \<Rightarrow> (int \<times> int) list \<Rightarrow> nat" where
  "size_changes prev [] = 0"
| "size_changes prev (x # xs) = (if prev = Some x then 0 else 1) + size_changes (Some x) xs"

text \<open>
  Pass-through: the parameters have an even size; a cycle is processed when
  there is enough input, the queue has a frame, the new reference is obtained,
  and a reinit, if any, brings an even size.
\<close>

definition even_params :: "mp_image_params \<Rightarrow> bool" where
  "even_params p \<longleftrightarrow> par_w p mod 2 = 0 \<and> par_h p mod 2 = 0"

definition processed_cycle :: "env \<Rightarrow> bool" where
  "processed_cycle e \<longleftrightarrow>
     can_output e \<and> new_ref_ok e \<and> refqueue_get e \<noteq> None \<and>
     (\<forall>f. execute_reinit e = Some f \<longrightarrow> even_params (img_params f))"

fun is_mark_failed :: "call \<Rightarrow> bool" where
  "is_mark_failed Mark_failed = True"
| "is_mark_failed _ = False"

fun is_new_ref :: "call \<Rightarrow> bool" where
  "is_new_ref Image_new_ref = True"
| "is_new_ref _ = False"

subsection \<open>Sample inputs\<close>

text \<open>
  A GPU-resident NV12 frame of the given size, a cycle in which every
  collaborator succeeds, and the state of a freshly constructed filter.
\<close>

definition sample_frame :: "nat \<Rightarrow> int \<Rightarrow> int \<Rightarrow> mp_image" where
  "sample_frame i width height =
     \<lparr>img_id = i, img_imgfmt = IMGFMT_D3D11, img_w = width, img_h = height,
      img_params = \<lparr>par_imgfmt = IMGFMT_D3D11, par_hw_subfmt = IMGFMT_NV12,
                    par_w = width, par_h = height, par_crop = (0, 0, width, height),
                    par_sys = PL_COLOR_SYSTEM_BT_709, par_levels = PL_COLOR_LEVELS_LIMITED\<rparr>,
      img_pts = int i, img_tex_w = nat width, img_tex_h = nat height, img_subindex = 0\<rparr>"

definition sample_env :: env where
  "sample_env =
     \<lparr>execute_reinit = None, can_output = True,
      refqueue_get = Some (sample_frame 1 1920 1080), new_ref_ok = True,
      pool_get = Some 100, is_second_field = False,
      hr_create_enumerator = Some 1, hr_get_caps = True, hr_create_processor = Some 2,
      hr_input_view = True, hr_output_view = True, hr_nvidia_extension = True,
      hr_vpe_version = True, hr_vpe_mode = True, hr_vpe_scaling = True, hr_blt = True\<rparr>"

definition sample_state :: "sr_mode \<Rightarrow> sr_scale \<Rightarrow> vf_state" where
  "sample_state m sc =
     \<lparr>opts = \<lparr>mode = m, scale = sc\<rparr>, video_proc = None, vp_enum = None,
      out_format = DXGI_FORMAT_UNKNOWN, params = zero_params, out_params = zero_params,
      c_w = 0, c_h = 0, pool = [], failed = False, out_pin = [], calls = []\<rparr>"

text \<open>
  The state of a filter with a mode on and the 1080p scale after its first
  reinit, to a frame of 1920 by 1080 (see \<open>playing_state_reached\<close> below).
\<close>

definition playing_state :: "sr_mode \<Rightarrow> sr_scale \<Rightarrow> vf_state" where
  "playing_state m sc =
     (sample_state m sc)
       \<lparr>out_format := DXGI_FORMAT_NV12, params := img_params (sample_frame 1 1920 1080),
        out_params := img_params (sample_frame 1 1920 1080), calls := [Pool_clear]\<rparr>"

section \<open>Theorems\<close>

subsection \<open>Properties of the single-precision model\<close>

lemma pow2_powi: "pow2 e = 2 powi e"
  by (simp add: pow2_def power_int_def power_one_over inverse_eq_divide)

lemma pow2_pos [simp]: "0 < pow2 e"
  by (simp add: pow2_powi)

lemma pow2_abs [simp]: "\<bar>pow2 e\<bar> = pow2 e"
  by (simp add: abs_of_pos)

lemma pow2_add: "pow2 (a + b) = pow2 a * pow2 b"
  by (simp add: pow2_powi power_int_add)

lemma pow2_diff: "pow2 (a - b) = pow2 a / pow2 b"
  by (simp add: pow2_powi power_int_diff)

lemma pow2_mono: "a \<le> b \<Longrightarrow> pow2 a \<le> pow2 b"
  by (simp add: pow2_powi power_int_increasing)

lemma pow2_strict_mono: "a < b \<Longrightarrow> pow2 a < pow2 b"
  by (simp add: pow2_powi power_int_strict_increasing)

lemma pow2_of_nat: "pow2 (int n) = 2 ^ n"
  by (simp add: pow2_def)

lemma ilog2_bounds:
  assumes "0 < x"
  shows "pow2 (ilog2 x) \<le> x \<and> x < pow2 (ilog2 x + 1)"
proof -
  obtain p q where pq: "quotient_of x = (p, q)" by (cases "quotient_of x")
  have q: "0 < q" using quotient_of_denom_pos[OF pq] .
  have x: "x = of_int p / of_int q" using quotient_of_div[OF pq] .
  have p: "0 < p" using assms q x by (simp add: zero_less_divide_iff)
  define fp where "fp = floorlog 2 (nat p)"
  define fq where "fq = floorlog 2 (nat q)"
  have bp: "2 ^ (fp - 1) \<le> nat p" "nat p < 2 ^ fp"
    using floorlog_bounds[of "nat p" 2] p by (auto simp: fp_def)
  have bq: "2 ^ (fq - 1) \<le> nat q" "nat q < 2 ^ fq"
    using floorlog_bounds[of "nat q" 2] q by (auto simp: fq_def)
  have f1: "1 \<le> fp" "1 \<le> fq"
    using p q floorlog_eq_zero_iff[of 2 "nat p"] floorlog_eq_zero_iff[of 2 "nat q"]
    by (auto simp: fp_def fq_def Suc_le_eq)
  have rp: "(2::rat) ^ (fp - 1) \<le> of_int p" "of_int p < (2::rat) ^ fp"
  proof -
    have "(of_nat (2 ^ (fp - 1)) :: rat) \<le> of_nat (nat p)" using bp(1) by (simp only: of_nat_le_iff)
    then show "(2::rat) ^ (fp - 1) \<le> of_int p" using p by simp
    have "(of_nat (nat p) :: rat) < of_nat (2 ^ fp)" using bp(2) by (simp only: of_nat_less_iff)
    then show "of_int p < (2::rat) ^ fp" using p by simp
  qed
  have rq: "(2::rat) ^ (fq - 1) \<le> of_int q" "of_int q < (2::rat) ^ fq"
  proof -
    have "(of_nat (2 ^ (fq - 1)) :: rat) \<le> of_nat (nat q)" using bq(1) by (simp only: of_nat_le_iff)
    then show "(2::rat) ^ (fq - 1) \<le> of_int q" using q by simp
    have "(of_nat (nat q) :: rat) < of_nat (2 ^ fq)" using bq(2) by (simp only: of_nat_less_iff)
    then show "of_int q < (2::rat) ^ fq" using q by simp
  qed
  define d where "d = int fp - int fq"
  have qpos: "(0::rat) < of_int q" and ppos: "(0::rat) < of_int p" using p q by simp_all
  have lo: "pow2 (d - 1) < x"
  proof -
    have "d - 1 = int (fp - 1) - int fq" using f1 by (simp add: d_def of_nat_diff)
    then have "pow2 (d - 1) = pow2 (int (fp - 1) - int fq)" by simp
    also have "\<dots> = 2 ^ (fp - 1) / 2 ^ fq" by (simp add: pow2_diff pow2_of_nat)
    also have "\<dots> < of_int p / of_int q"
      using rp(1) rq(2) qpos ppos by (intro frac_less2) auto
    finally show ?thesis by (simp add: x)
  qed
  have hi: "x < pow2 (d + 1)"
  proof -
    have "d + 1 = int fp - int (fq - 1)" using f1 by (simp add: d_def of_nat_diff)
    then have "pow2 (d + 1) = pow2 (int fp - int (fq - 1))" by simp
    also have "\<dots> = 2 ^ fp / 2 ^ (fq - 1)" by (simp add: pow2_diff pow2_of_nat)
    finally have e: "pow2 (d + 1) = 2 ^ fp / 2 ^ (fq - 1)" .
    have "of_int p / of_int q < (2::rat) ^ fp / 2 ^ (fq - 1)"
      using rp(2) rq(1) qpos ppos by (intro frac_less) auto
    then show ?thesis by (simp add: x e)
  qed
  have il: "ilog2 x = (if pow2 d \<le> x then d else d - 1)"
    by (simp add: ilog2_def pq fp_def fq_def d_def Let_def)
  show ?thesis
  proof (cases "pow2 d \<le> x")
    case True
    then show ?thesis using hi il by simp
  next
    case False
    then show ?thesis using lo il by simp
  qed
qed

lemma ilog2_unique:
  assumes "pow2 e \<le> x" "x < pow2 (e + 1)"
  shows "ilog2 x = e"
proof -
  have x: "0 < x" using assms(1) pow2_pos[of e] by linarith
  note b = ilog2_bounds[OF x]
  have "\<not> ilog2 x < e"
  proof
    assume "ilog2 x < e"
    then have "pow2 (ilog2 x + 1) \<le> pow2 e" by (intro pow2_mono) simp
    then show False using b assms by linarith
  qed
  moreover have "\<not> e < ilog2 x"
  proof
    assume "e < ilog2 x"
    then have "pow2 (e + 1) \<le> pow2 (ilog2 x)" by (intro pow2_mono) simp
    then show False using b assms by linarith
  qed
  ultimately show ?thesis by simp
qed

lemma rne_eqI:
  assumes "\<bar>x - of_int n\<bar> < 1 / 2"
  shows "rne x = n"
proof -
  have "\<lfloor>x\<rfloor> = n \<or> \<lfloor>x\<rfloor> = n - 1" using assms by (cases "of_int n \<le> x") linarith+
  then show ?thesis
  proof
    assume f: "\<lfloor>x\<rfloor> = n"
    then have "x - of_int n < 1 / 2" using assms by linarith
    then show ?thesis using f by (simp add: rne_def Let_def)
  next
    assume f: "\<lfloor>x\<rfloor> = n - 1"
    have "x - of_int (n - 1) = x - of_int n + 1" by simp
    moreover have "- (1 / 2) < x - of_int n" using assms by linarith
    ultimately have "1 / 2 < x - of_int (n - 1)" by linarith
    then show ?thesis using f by (simp add: rne_def Let_def)
  qed
qed

lemma rne_of_int [simp]: "rne (of_int n) = n"
  by (rule rne_eqI) simp

lemma fl32_eqI:
  assumes "pow2 e \<le> \<bar>x\<bar>" "\<bar>x\<bar> < pow2 (e + 1)" "- 126 \<le> e" "e \<le> 126"
    and "\<bar>x / pow2 (e - 23) - of_int n\<bar> < 1 / 2"
  shows "fl32 x = Some (of_int n * pow2 (e - 23))"
proof -
  have "0 < \<bar>x\<bar>" using assms(1) pow2_pos[of e] by linarith
  then have x0: "x \<noteq> 0" by simp
  have il: "ilog2 \<bar>x\<bar> = e" using assms(1,2) by (rule ilog2_unique)
  have r: "rne (x / pow2 (e - 23)) = n" using assms(5) by (rule rne_eqI)
  have p24: "pow2 24 = 2 ^ 24" using pow2_of_nat[of 24] by simp
  have "\<bar>x / pow2 (e - 23)\<bar> < pow2 (e + 1) / pow2 (e - 23)"
    using assms(2) by (simp add: divide_strict_right_mono)
  also have "\<dots> = 2 ^ 24" using pow2_diff[of "e + 1" "e - 23", symmetric] p24 by simp
  finally have "\<bar>x / pow2 (e - 23)\<bar> < 2 ^ 24" .
  then have "\<bar>(of_int n :: rat)\<bar> < 2 ^ 24 + 1 / 2" using assms(5) by linarith
  then have "\<bar>(of_int n :: rat)\<bar> < of_int (2 ^ 24 + 1)" by simp
  then have "\<bar>n\<bar> < 2 ^ 24 + 1" by (simp only: of_int_abs[symmetric] of_int_less_iff)
  then have "\<bar>(of_int n :: rat)\<bar> \<le> 2 ^ 24"
    by (metis of_int_abs of_int_le_iff of_int_numeral of_int_power zle_add1_eq_le zless_add1_eq add.commute)
  then have "\<bar>of_int n * pow2 (e - 23)\<bar> \<le> 2 ^ 24 * pow2 (e - 23)"
    by (simp add: abs_mult mult_right_mono)
  also have "\<dots> = pow2 (e + 1)" using pow2_add[of 24 "e - 23"] p24 by (simp add: add.commute)
  also have "\<dots> < pow2 128" using assms(4) by (intro pow2_strict_mono) simp
  finally show ?thesis using x0 il r assms(3) by (simp add: fl32_def Let_def max_def)
qed

lemma fl32_int_exact:
  assumes "\<bar>i\<bar> \<le> 2 ^ 24"
  shows "fl32 (of_int i) = Some (of_int i)"
proof (cases "i = 0")
  case True
  then show ?thesis by (simp add: fl32_def)
next
  case False
  define x :: rat where "x = of_int i"
  have x0: "x \<noteq> 0" using False by (simp add: x_def)
  have "1 \<le> \<bar>i\<bar>" using False by linarith
  then have "(of_int 1 :: rat) \<le> of_int \<bar>i\<bar>" by (simp only: of_int_le_iff)
  then have x1: "1 \<le> \<bar>x\<bar>" by (simp add: x_def)
  have "(of_int \<bar>i\<bar> :: rat) \<le> of_int (2 ^ 24)" using assms by (simp only: of_int_le_iff)
  then have x2: "\<bar>x\<bar> \<le> 2 ^ 24" by (simp add: x_def)
  define e where "e = ilog2 \<bar>x\<bar>"
  have b: "pow2 e \<le> \<bar>x\<bar>" "\<bar>x\<bar> < pow2 (e + 1)"
    using ilog2_bounds[of "\<bar>x\<bar>"] x0 by (simp_all add: e_def)
  have p0: "pow2 0 = 1" by (simp add: pow2_def)
  have p24: "pow2 24 = 2 ^ 24" using pow2_of_nat[of 24] by simp
  have e0: "0 \<le> e"
  proof (rule ccontr)
    assume "\<not> 0 \<le> e"
    then have "pow2 (e + 1) \<le> pow2 0" by (intro pow2_mono) simp
    then show False using b(2) x1 p0 by linarith
  qed
  have e24: "e \<le> 24"
  proof (rule ccontr)
    assume "\<not> e \<le> 24"
    then have "pow2 24 < pow2 e" by (intro pow2_strict_mono) simp
    then show False using b(1) x2 p24 by linarith
  qed
  have "\<exists>k. x = of_int k * pow2 (e - 23)"
  proof (cases "e \<le> 23")
    case True
    have "pow2 (e - 23) * pow2 (23 - e) = 1" using pow2_add[of "e - 23" "23 - e"] p0 by simp
    moreover have "pow2 (23 - e) = of_int (2 ^ nat (23 - e))" using True by (simp add: pow2_def)
    ultimately have "x = of_int (i * 2 ^ nat (23 - e)) * pow2 (e - 23)"
      by (simp add: x_def mult.assoc mult.commute)
    then show ?thesis by blast
  next
    case False
    then have e: "e = 24" using e24 by simp
    then have "\<bar>x\<bar> = 2 ^ 24" using b(1) x2 p24 by simp
    then have "\<bar>(of_int i :: rat)\<bar> = of_int (2 ^ 24)" by (simp add: x_def)
    then have "\<bar>i\<bar> = 2 ^ 24" by (simp only: of_int_abs[symmetric] of_int_eq_iff)
    then consider "i = 16777216" | "i = - 16777216" by (auto simp: abs_if split: if_splits)
    then have "i = 2 * (i div 2)" by cases simp_all
    then have "x = of_int (i div 2) * 2" unfolding x_def
      by (metis mult.commute of_int_mult of_int_numeral)
    moreover have "pow2 (e - 23) = 2" using e by (simp add: pow2_def)
    ultimately show ?thesis by auto
  qed
  then obtain k where k: "x = of_int k * pow2 (e - 23)" by blast
  have "0 < pow2 (e - 23)" by (rule pow2_pos)
  then have ne: "pow2 (e - 23) \<noteq> 0" by linarith
  have r: "rne (x / pow2 (e - 23)) = k" using k ne by simp
  have "\<bar>x\<bar> < pow2 128"
  proof -
    have "pow2 24 < pow2 128" by (intro pow2_strict_mono) simp
    then show ?thesis using x2 p24 by linarith
  qed
  moreover have "ilog2 \<bar>x\<bar> = e" by (simp add: e_def)
  moreover have "max e (- 126) = e" using e0 by simp
  moreover have "of_int (rne (x / pow2 (e - 23))) * pow2 (e - 23) = x"
    unfolding r using k by simp
  ultimately have "fl32 x = Some x"
    using x0 by (simp add: fl32_def Let_def)
  then show ?thesis by (simp add: x_def)
qed

lemma int_to_float_exact: "\<bar>i\<bar> \<le> 16777216 \<Longrightarrow> int_to_float i = Some (of_int i)"
  using fl32_int_exact[of i] by (simp add: int_to_float_def)

lemma float_to_int_int: "INT_MIN \<le> i \<Longrightarrow> i \<le> INT_MAX \<Longrightarrow> float_to_int (of_int i) = Some i"
  by (simp add: float_to_int_def trunc_def)

text \<open>
  Four values of the rounding function, as a check of the model against binary32: one
  third, the two integers just above \<^term>\<open>2 ^ 24 :: rat\<close> that lie halfway between
  two representable neighbours (a tie goes to the even mantissa), and the first power of
  two that is out of range.
\<close>

lemma fl32_third: "fl32 (1 / 3) = Some (11184811 / 33554432)"
  using fl32_eqI[of "- 2" "1 / 3" 11184811] by (simp add: pow2_def)

lemma fl32_tie_down: "fl32 16777217 = Some 16777216"
proof -
  have il: "ilog2 16777217 = 24" by (rule ilog2_unique) (simp_all add: pow2_def)
  have f: "\<lfloor>(16777217::rat) / 2\<rfloor> = 8388608" by (simp add: floor_eq_iff)
  have r: "rne (16777217 / 2) = 8388608" by (simp add: rne_def Let_def f)
  show ?thesis by (simp add: fl32_def Let_def il r pow2_def)
qed

lemma fl32_tie_up: "fl32 16777219 = Some 16777220"
proof -
  have il: "ilog2 16777219 = 24" by (rule ilog2_unique) (simp_all add: pow2_def)
  have f: "\<lfloor>(16777219::rat) / 2\<rfloor> = 8388609" by (simp add: floor_eq_iff)
  have r: "rne (16777219 / 2) = 8388610" by (simp add: rne_def Let_def f)
  show ?thesis by (simp add: fl32_def Let_def il r pow2_def)
qed

lemma fl32_overflow: "fl32 (pow2 128) = None"
proof -
  have il: "ilog2 (pow2 128) = 128"
    by (rule ilog2_unique) (simp_all add: pow2_mono pow2_strict_mono)
  have "pow2 128 / pow2 105 = pow2 23" using pow2_diff[of 128 105] by simp
  also have "\<dots> = of_int (2 ^ 23)" using pow2_of_nat[of 23] by simp
  finally have r: "rne (pow2 128 / pow2 105) = 2 ^ 23" by (simp only: rne_of_int)
  have "of_int (2 ^ 23) * pow2 105 = pow2 23 * pow2 105" using pow2_of_nat[of 23] by simp
  also have "\<dots> = pow2 128" using pow2_add[of 23 105] by simp
  finally have y: "of_int (2 ^ 23) * pow2 105 = pow2 128" .
  have nz: "pow2 128 \<noteq> 0" using pow2_pos[of 128] by linarith
  have m: "max (128::int) (- 126) - 23 = 105" by simp
  show ?thesis unfolding fl32_def Let_def pow2_abs il m r y using nz by simp
qed

lemma grs_1280_720: "get_render_size 1280 720 1920 1080 = Some (1920, 1080)"
proof -
  have a: "float_div 1280 720 = Some (14913081 / 8388608)"
    using fl32_eqI[of 0 "1280 / 720" 14913081] by (simp add: float_div_def pow2_def)
  have q: "float_div 1920 (14913081 / 8388608) = Some 1080"
    using fl32_eqI[of 10 "1920 / (14913081 / 8388608)" 8847360] by (simp add: float_div_def pow2_def)
  have t: "float_to_int 1080 = Some 1080"
    using float_to_int_int[of 1080] by (simp add: INT_MIN_def INT_MAX_def)
  show ?thesis
    by (simp add: get_render_size_def int_to_float_exact a q t)
qed

lemma grs_720_480: "get_render_size 720 480 1920 1080 = Some (1620, 1080)"
proof -
  have a: "float_div 720 480 = Some (3 / 2)"
    using fl32_eqI[of 0 "720 / 480" 12582912] by (simp add: float_div_def pow2_def)
  have q: "float_div 1920 (3 / 2) = Some 1280"
    using fl32_eqI[of 10 "1920 / (3 / 2)" 10485760] by (simp add: float_div_def pow2_def)
  have t: "float_to_int 1280 = Some 1280" "float_to_int 1620 = Some 1620"
    using float_to_int_int[of 1280] float_to_int_int[of 1620] by (simp_all add: INT_MIN_def INT_MAX_def)
  have m: "float_mul 1080 (3 / 2) = Some 1620"
    using fl32_eqI[of 10 "1080 * (3 / 2)" 13271040] by (simp add: float_mul_def pow2_def)
  show ?thesis
    by (simp add: get_render_size_def int_to_float_exact a q t m)
qed

lemma grs_720_400: "get_render_size 720 400 1920 1080 = Some (1920, 1066)"
proof -
  have a: "float_div 720 400 = Some (7549747 / 4194304)"
    using fl32_eqI[of 0 "720 / 400" 15099494] by (simp add: float_div_def pow2_def)
  have q: "float_div 1920 (7549747 / 4194304) = Some (4369067 / 4096)"
    using fl32_eqI[of 10 "1920 / (7549747 / 4194304)" 8738134] by (simp add: float_div_def pow2_def)
  have t: "float_to_int (4369067 / 4096) = Some 1066"
    by (simp add: float_to_int_def trunc_def INT_MIN_def INT_MAX_def floor_eq_iff)
  show ?thesis
    by (simp add: get_render_size_def int_to_float_exact a q t)
qed

lemma spec_720_400: "renderSize_spec 720 400 1920 1080 = (1920, 1067)"
  by (simp add: renderSize_spec_def Let_def round_def floor_eq_iff)

lemma grs_1920_800_2x: "get_render_size 1920 800 3840 1600 = Some (3840, 1599)"
proof -
  have a: "float_div 1920 800 = Some (5033165 / 2097152)"
    using fl32_eqI[of 1 "1920 / 800" 10066330] by (simp add: float_div_def pow2_def)
  have q: "float_div 3840 (5033165 / 2097152) = Some (13107199 / 8192)"
    using fl32_eqI[of 10 "3840 / (5033165 / 2097152)" 13107199] by (simp add: float_div_def pow2_def)
  have t: "float_to_int (13107199 / 8192) = Some 1599"
    by (simp add: float_to_int_def trunc_def INT_MIN_def INT_MAX_def floor_eq_iff)
  show ?thesis
    by (simp add: get_render_size_def int_to_float_exact a q t)
qed

lemma rne_cases: "rne x = \<lfloor>x\<rfloor> \<or> rne x = \<lfloor>x\<rfloor> + 1"
  by (simp add: rne_def Let_def)

lemma rne_ge: "of_int k \<le> x \<Longrightarrow> k \<le> rne x"
proof -
  assume "of_int k \<le> x"
  then have "k \<le> \<lfloor>x\<rfloor>" by (simp add: le_floor_iff)
  then show ?thesis using rne_cases[of x] by linarith
qed

lemma rne_le: "x \<le> of_int k \<Longrightarrow> rne x \<le> k"
proof (cases "x = of_int k")
  case True
  then show ?thesis by simp
next
  case False
  assume "x \<le> of_int k"
  then have "x < of_int k" using False by simp
  then have "\<lfloor>x\<rfloor> < k" by (simp add: floor_less_iff)
  then show ?thesis using rne_cases[of x] by linarith
qed

lemma fl32_range:
  assumes "pow2 a \<le> x" "x \<le> pow2 b" "- 126 \<le> a" "b \<le> 127"
  shows "\<exists>y. fl32 x = Some y \<and> pow2 a \<le> y \<and> y \<le> pow2 b"
proof -
  have x0: "0 < x" using assms(1) pow2_pos[of a] by linarith
  define e where "e = ilog2 x"
  have b: "pow2 e \<le> x" "x < pow2 (e + 1)" using ilog2_bounds[OF x0] by (simp_all add: e_def)
  have ae: "a \<le> e"
  proof (rule ccontr)
    assume "\<not> a \<le> e"
    then have "pow2 (e + 1) \<le> pow2 a" by (intro pow2_mono) simp
    then show False using b(2) assms(1) by linarith
  qed
  have eb: "e \<le> b"
  proof (rule ccontr)
    assume "\<not> e \<le> b"
    then have "pow2 b < pow2 e" by (intro pow2_strict_mono) simp
    then show False using b(1) assms(2) by linarith
  qed
  define u where "u = pow2 (e - 23)"
  have u0: "0 < u" by (simp add: u_def)
  have p23: "pow2 23 = 2 ^ 23" using pow2_of_nat[of 23] by simp
  have p24: "pow2 24 = 2 ^ 24" using pow2_of_nat[of 24] by simp
  have ue: "2 ^ 23 * u = pow2 e" using pow2_add[of 23 "e - 23"] p23 by (simp add: u_def)
  have ue1: "2 ^ 24 * u = pow2 (e + 1)"
    using pow2_add[of 24 "e - 23"] p24 by (simp add: u_def add.commute)
  define n where "n = rne (x / u)"
  have "of_int (2 ^ 23) \<le> x / u" using b(1) ue u0 by (simp add: le_divide_eq)
  then have n1: "2 ^ 23 \<le> n" unfolding n_def by (rule rne_ge)
  have "x / u \<le> of_int (2 ^ 24)" using b(2) ue1 u0 by (simp add: divide_le_eq)
  then have n2: "n \<le> 2 ^ 24" unfolding n_def by (rule rne_le)
  define y where "y = of_int n * u"
  have "(of_int (2 ^ 23) :: rat) \<le> of_int n" using n1 by (simp only: of_int_le_iff)
  then have "2 ^ 23 * u \<le> y" using u0 by (simp add: y_def)
  then have y1: "pow2 e \<le> y" using ue by simp
  have "(of_int n :: rat) \<le> of_int (2 ^ 24)" using n2 by (simp only: of_int_le_iff)
  then have "y \<le> 2 ^ 24 * u" using u0 by (simp add: y_def)
  then have y2: "y \<le> pow2 (e + 1)" using ue1 by simp
  have yb: "y \<le> pow2 b"
  proof (cases "e = b")
    case True
    then have "x = pow2 e" using b(1) assms(2) by simp
    then have "x / u = of_int (2 ^ 23)" using ue u0 by (simp add: divide_eq_eq mult.commute)
    then have "n = 2 ^ 23" unfolding n_def by (simp only: rne_of_int)
    then show ?thesis using ue True by (simp add: y_def)
  next
    case False
    then have "pow2 (e + 1) \<le> pow2 b" using eb by (intro pow2_mono) simp
    then show ?thesis using y2 by linarith
  qed
  have "pow2 b < pow2 128" using assms(4) by (intro pow2_strict_mono) simp
  then have fin: "\<bar>y\<bar> < pow2 128" using yb y1 pow2_pos[of e] by linarith
  have "pow2 a \<le> pow2 e" using ae by (rule pow2_mono)
  then have ya: "pow2 a \<le> y" using y1 by linarith
  have mx: "max e (- 126) = e" using ae assms(3) by simp
  have "fl32 x = Some y"
    using x0 fin by (simp add: fl32_def Let_def e_def[symmetric] mx u_def[symmetric] n_def[symmetric] y_def[symmetric])
  then show ?thesis using ya yb by blast
qed

lemma rne_error: "\<bar>of_int (rne x) - x\<bar> \<le> 1 / 2"
proof -
  define n where "n = \<lfloor>x\<rfloor>"
  have n: "of_int n \<le> x" "x < of_int n + 1" unfolding n_def by linarith+
  have "rne x = (if x - of_int n < 1 / 2 then n
                 else if 1 / 2 < x - of_int n then n + 1
                 else if even n then n else n + 1)"
    by (simp add: rne_def Let_def n_def)
  then consider "rne x = n" "x - of_int n \<le> 1 / 2" | "rne x = n + 1" "1 / 2 \<le> x - of_int n"
    by (cases "x - of_int n < 1 / 2"; cases "1 / 2 < x - of_int n"; cases "even n") simp_all
  then show ?thesis
  proof cases
    case 1
    then show ?thesis using n by simp
  next
    case 2
    then show ?thesis using n by simp
  qed
qed

lemma fl32_error:
  assumes "fl32 x = Some y" "pow2 a \<le> x" "- 126 \<le> a"
  shows "\<bar>y - x\<bar> \<le> x / 16777216"
proof -
  have x0: "0 < x" using assms(2) pow2_pos[of a] by linarith
  define e where "e = ilog2 x"
  have b: "pow2 e \<le> x" "x < pow2 (e + 1)" using ilog2_bounds[OF x0] by (simp_all add: e_def)
  have ae: "a \<le> e"
  proof (rule ccontr)
    assume "\<not> a \<le> e"
    then have "pow2 (e + 1) \<le> pow2 a" by (intro pow2_mono) simp
    then show False using b(2) assms(2) by linarith
  qed
  define u where "u = pow2 (e - 23)"
  have u0: "0 < u" by (simp add: u_def)
  have p23: "pow2 23 = 2 ^ 23" using pow2_of_nat[of 23] by simp
  have ue: "8388608 * u = pow2 e" using pow2_add[of 23 "e - 23"] p23 by (simp add: u_def)
  have mx: "max e (- 126) = e" using ae assms(3) by simp
  have ax: "\<bar>x\<bar> = x" using x0 by simp
  have y: "y = of_int (rne (x / u)) * u"
    using assms(1) x0 unfolding fl32_def Let_def ax e_def[symmetric] mx u_def[symmetric]
    by (simp split: if_splits)
  have "y - x = (of_int (rne (x / u)) - x / u) * u" using u0 by (simp add: y algebra_simps)
  then have "\<bar>y - x\<bar> = \<bar>of_int (rne (x / u)) - x / u\<bar> * u" using u0 by (simp add: abs_mult)
  also have "\<dots> \<le> 1 / 2 * u" using rne_error[of "x / u"] u0 by (intro mult_right_mono) auto
  also have "\<dots> = pow2 e / 16777216" using ue by simp
  also have "\<dots> \<le> x / 16777216" using b(1) by simp
  finally show ?thesis .
qed

lemma float_to_int_range:
  assumes "0 \<le> x" "x \<le> 1073741824"
  shows "float_to_int x = Some (trunc x)"
proof -
  have "0 \<le> \<lfloor>x\<rfloor>" using assms(1) by simp
  moreover have "\<lfloor>x\<rfloor> \<le> 1073741824" using assms(2) by (simp add: floor_le_iff)
  ultimately show ?thesis using assms(1)
    by (simp add: float_to_int_def trunc_def INT_MIN_def INT_MAX_def)
qed

lemma render_size_upscale_defined:
  assumes "1 \<le> input_w" "input_w \<le> window_w" "window_w \<le> 32768"
    and "1 \<le> input_h" "input_h \<le> window_h" "window_h \<le> 32768"
  shows "\<exists>aspect q m.
           float_div (of_int input_w) (of_int input_h) = Some aspect \<and>
           float_div (of_int window_w) aspect = Some q \<and>
           float_mul (of_int window_h) aspect = Some m \<and>
           get_render_size input_w input_h window_w window_h =
             Some (if trunc q > window_h then (trunc m, window_h) else (window_w, trunc q))"
proof -
  define w h W H :: rat where "w = of_int input_w" and "h = of_int input_h"
    and "W = of_int window_w" and "H = of_int window_h"
  have i: "int_to_float input_w = Some w" "int_to_float input_h = Some h"
    "int_to_float window_w = Some W" "int_to_float window_h = Some H"
    using assms by (simp_all add: int_to_float_exact w_def h_def W_def H_def)
  have r: "1 \<le> w" "w \<le> 32768" "1 \<le> h" "h \<le> 32768" "1 \<le> W" "W \<le> 32768" "1 \<le> H" "H \<le> 32768"
    using assms by (simp_all add: w_def h_def W_def H_def)
  have p: "pow2 (- 15) = 1 / 32768" "pow2 15 = 32768" "pow2 30 = 1073741824"
    by (simp_all add: pow2_def)
  have "1 / 32768 \<le> w / h" using r by (intro frac_le) auto
  moreover have "w / h \<le> 32768 / 1" using r by (intro frac_le) auto
  ultimately obtain aspect where a: "fl32 (w / h) = Some aspect" "1 / 32768 \<le> aspect" "aspect \<le> 32768"
    using fl32_range[of "- 15" "w / h" 15] p by auto
  have a0: "0 < aspect" using a(2) by linarith
  have "1 / 32768 \<le> W / aspect" using r a a0 by (intro frac_le) auto
  moreover have "W / aspect \<le> 32768 / (1 / 32768)" using r a a0 by (intro frac_le) auto
  ultimately obtain q where q: "fl32 (W / aspect) = Some q" "1 / 32768 \<le> q" "q \<le> 1073741824"
    using fl32_range[of "- 15" "W / aspect" 30] p by auto
  have "1 * (1 / 32768) \<le> H * aspect" using r a by (intro mult_mono) auto
  moreover have "H * aspect \<le> 32768 * 32768" using r a a0 by (intro mult_mono) auto
  ultimately obtain m where m: "fl32 (H * aspect) = Some m" "1 / 32768 \<le> m" "m \<le> 1073741824"
    using fl32_range[of "- 15" "H * aspect" 30] p by auto
  have h0: "h \<noteq> 0" and as0: "aspect \<noteq> 0" using r a0 by auto
  have fa: "float_div w h = Some aspect" using a(1) h0 by (simp add: float_div_def)
  have fq: "float_div W aspect = Some q" using q(1) as0 by (simp add: float_div_def)
  have fm: "float_mul H aspect = Some m" using m(1) by (simp add: float_mul_def)
  have tq: "float_to_int q = Some (trunc q)" using q by (intro float_to_int_range) auto
  have tm: "float_to_int m = Some (trunc m)" using m by (intro float_to_int_range) auto
  have "get_render_size input_w input_h window_w window_h =
          Some (if trunc q > window_h then (trunc m, window_h) else (window_w, trunc q))"
    using assms(2,5) by (simp add: get_render_size_def i fa fq fm tq tm)
  then show ?thesis using fa fq fm unfolding w_def h_def W_def H_def by blast
qed

lemma get_render_size_defined:
  assumes "1 \<le> input_w" "1 \<le> input_h" "window_w \<le> 32768" "window_h \<le> 32768"
  shows "\<exists>out_w out_h. get_render_size input_w input_h window_w window_h = Some (out_w, out_h)"
proof (cases "input_w > window_w \<or> input_h > window_h")
  case True
  then show ?thesis by (simp add: get_render_size_def)
next
  case False
  then have "input_w \<le> window_w" "input_h \<le> window_h" by auto
  from render_size_upscale_defined[OF assms(1) this(1) assms(3) assms(2) this(2) assms(4)]
  show ?thesis by (metis surj_pair)
qed

lemma render_size_upscale_exact:
  assumes "1 \<le> input_w" "input_w \<le> window_w" "window_w \<le> 32768"
    and "1 \<le> input_h" "input_h \<le> window_h" "window_h \<le> 32768"
    and s1: "clear_of_integers (of_int window_w / (of_int input_w / of_int input_h))"
    and s2: "window_h < \<lfloor>of_int window_w / (of_int input_w / of_int input_h :: rat)\<rfloor> \<Longrightarrow>
             clear_of_integers (of_int window_h * (of_int input_w / of_int input_h))"
  shows "get_render_size input_w input_h window_w window_h =
         Some (renderSize_trunc input_w input_h window_w window_h)"
proof -
  define w h W H :: rat where "w = of_int input_w" and "h = of_int input_h"
    and "W = of_int window_w" and "H = of_int window_h"
  have r: "1 \<le> w" "w \<le> 32768" "1 \<le> h" "h \<le> 32768" "1 \<le> W" "W \<le> 32768" "1 \<le> H" "H \<le> 32768"
    using assms(1-6) by (simp_all add: w_def h_def W_def H_def)
  define a where "a = w / h"
  have a1: "1 / 32768 \<le> a" unfolding a_def using r by (intro frac_le) auto
  have a2: "a \<le> 32768"
  proof -
    have "w / h \<le> 32768 / 1" using r by (intro frac_le) auto
    then show ?thesis by (simp add: a_def)
  qed
  have a0: "0 < a" using a1 by linarith
  from render_size_upscale_defined[OF assms(1-6)] obtain aspect q m where
    fa: "float_div w h = Some aspect" and fq: "float_div W aspect = Some q"
    and fm: "float_mul H aspect = Some m"
    and g: "get_render_size input_w input_h window_w window_h =
              Some (if trunc q > window_h then (trunc m, window_h) else (window_w, trunc q))"
    unfolding w_def h_def W_def H_def by blast
  have la: "fl32 a = Some aspect" using fa by (simp add: float_div_def a_def split: if_splits)
  have "\<bar>aspect - a\<bar> \<le> a / 16777216"
    using fl32_error[OF la, of "- 15"] a1 by (simp add: pow2_def)
  then have ab: "a * (16777215 / 16777216) \<le> aspect" "aspect \<le> a * (16777217 / 16777216)"
    by linarith+
  have as0: "0 < aspect" using ab(1) a0 by linarith
  have as2: "aspect \<le> 65536" using ab(2) a2 by linarith
  have as1: "1 / 65536 \<le> aspect" using ab(1) a1 by linarith
  define t where "t = W / aspect"
  define q1 where "q1 = W / a"
  have t1: "1 / 65536 \<le> t" unfolding t_def using r as0 as2 by (intro frac_le) auto
  have t0: "0 \<le> t" using t1 by linarith
  have q10: "0 \<le> q1" unfolding q1_def using r a0 by simp
  have ta: "t * aspect = W" "q1 * a = W" using as0 a0 by (simp_all add: t_def q1_def)
  have lq: "fl32 t = Some q" using fq as0 by (simp add: float_div_def t_def)
  have "\<bar>q - t\<bar> \<le> t / 16777216"
    using fl32_error[OF lq, of "- 16"] t1 by (simp add: pow2_def)
  then have qb: "t * (16777215 / 16777216) \<le> q" "q \<le> t * (16777217 / 16777216)"
    by linarith+
  have b1: "t * (16777215 / 16777216) \<le> q1"
  proof -
    have "t * (a * (16777215 / 16777216)) \<le> t * aspect" using t0 ab(1) by (rule mult_left_mono[rotated])
    then have "(t * (16777215 / 16777216)) * a \<le> q1 * a" using ta by (simp add: mult_ac)
    then show ?thesis using a0 by (rule mult_right_le_imp_le)
  qed
  have b2: "q1 \<le> t * (16777217 / 16777216)"
  proof -
    have "t * aspect \<le> t * (a * (16777217 / 16777216))" using t0 ab(2) by (rule mult_left_mono[rotated])
    then have "q1 * a \<le> (t * (16777217 / 16777216)) * a" using ta by (simp add: mult_ac)
    then show ?thesis using a0 by (rule mult_right_le_imp_le)
  qed
  have q0: "0 \<le> q" using qb(1) t0 by linarith
  have ql: "q1 - q1 / 4194304 \<le> q" using qb(1) b2 q10 by linarith
  have qu: "q \<le> q1 + q1 / 4194304" using qb(2) b1 q10 by linarith
  have q1e: "of_int window_w / (of_int input_w / of_int input_h) = q1"
    by (simp add: q1_def a_def W_def w_def h_def)
  have fq1: "\<lfloor>q\<rfloor> = \<lfloor>q1\<rfloor>"
    using s1 ql qu unfolding q1e clear_of_integers_def by (intro floor_unique) linarith+
  have tq: "trunc q = \<lfloor>q1\<rfloor>" using q0 fq1 by (simp add: trunc_def)
  define s where "s = H * aspect"
  define p where "p = H * a"
  have p0: "0 \<le> p" using r a0 by (simp add: p_def)
  have sb: "p * (16777215 / 16777216) \<le> s" "s \<le> p * (16777217 / 16777216)"
  proof -
    have "H * (a * (16777215 / 16777216)) \<le> H * aspect" using ab(1) r by (intro mult_left_mono) auto
    then show "p * (16777215 / 16777216) \<le> s" by (simp add: p_def s_def mult_ac)
    have "H * aspect \<le> H * (a * (16777217 / 16777216))" using ab(2) r by (intro mult_left_mono) auto
    then show "s \<le> p * (16777217 / 16777216)" by (simp add: p_def s_def mult_ac)
  qed
  have "1 * (1 / 65536) \<le> H * aspect" using r as1 by (intro mult_mono) auto
  then have s1': "1 / 65536 \<le> s" by (simp add: s_def)
  have lm: "fl32 s = Some m" using fm by (simp add: float_mul_def s_def)
  have "\<bar>m - s\<bar> \<le> s / 16777216"
    using fl32_error[OF lm, of "- 16"] s1' by (simp add: pow2_def)
  then have mb: "s * (16777215 / 16777216) \<le> m" "m \<le> s * (16777217 / 16777216)"
    by linarith+
  have m0: "0 \<le> m" using mb(1) s1' by linarith
  have ml: "p - p / 4194304 \<le> m" using mb(1) sb(1) p0 by linarith
  have mu: "m \<le> p + p / 4194304" using mb(2) sb(2) p0 by linarith
  have pe: "of_int window_h * (of_int input_w / of_int input_h) = p"
    by (simp add: p_def a_def H_def w_def h_def)
  have tm: "window_h < \<lfloor>q1\<rfloor> \<Longrightarrow> trunc m = \<lfloor>p\<rfloor>"
  proof -
    assume "window_h < \<lfloor>q1\<rfloor>"
    then have "clear_of_integers p" using s2 unfolding q1e pe by simp
    then have "\<lfloor>m\<rfloor> = \<lfloor>p\<rfloor>"
      using ml mu unfolding clear_of_integers_def by (intro floor_unique) linarith+
    then show ?thesis using m0 by (simp add: trunc_def)
  qed
  have "renderSize_trunc input_w input_h window_w window_h =
          (if \<lfloor>q1\<rfloor> > window_h then (\<lfloor>p\<rfloor>, window_h) else (window_w, \<lfloor>q1\<rfloor>))"
    using assms(2,5) unfolding renderSize_trunc_def Let_def q1e pe by simp
  then show ?thesis using g tq tm by simp
qed

lemma clear_of_integers_whole: "0 < i \<Longrightarrow> \<not> clear_of_integers (of_int i)"
  by (simp add: clear_of_integers_def)

lemma renderSize_trunc_1920_800: "renderSize_trunc 1920 800 3840 1600 = (3840, 1600)"
proof -
  have "(3840::rat) / (1920 / 800) = of_int 1600" by simp
  then have "\<lfloor>(3840::rat) / (1920 / 800)\<rfloor> = 1600" by (simp only: floor_of_int)
  then show ?thesis by (simp add: renderSize_trunc_def Let_def)
qed

subsection \<open>Render size\<close>

text \<open>
  C2. For every input size and target with \<open>input_w > window_w\<close> or
  \<open>input_h > window_h\<close>, \<open>get_render_size\<close> returns the input size unchanged:
  the policy never downscales a source larger than the target.
\<close>

theorem get_render_size_no_downscale:
  "input_w > window_w \<or> input_h > window_h \<Longrightarrow>
   get_render_size input_w input_h window_w window_h = Some (input_w, input_h)"
  by (simp add: get_render_size_def)

text \<open>
  C2 at the 1920 by 1080 source and the 1280 by 720 target.
\<close>

theorem get_render_size_no_downscale_witness:
  "((1920::int) > 1280 \<or> (1080::int) > 720) \<and>
   get_render_size 1920 1080 1280 720 = Some (1920, 1080)"
  using get_render_size_no_downscale [of 1280 1920 720 1080] by simp

text \<open>
  C1, as the specification states it, with rounding to the nearest integer: it
  fails for a 720 by 400 source against the 1920 by 1080 target. The code
  yields a height of 1066, the truncation of 1066.67, where rounding gives 1067.
\<close>

theorem get_render_size_round_counterexample:
  "(720::int) \<le> 1920 \<and> (400::int) \<le> 1080 \<and>
   get_render_size 720 400 1920 1080 = Some (1920, 1066) \<and>
   renderSize_spec 720 400 1920 1080 = (1920, 1067)"
  by (simp add: grs_720_400 spec_720_400)

text \<open>
  C1, amended: the results are truncated, not rounded. For every input size and
  target with \<open>1 \<le> input_w \<le> window_w \<le> 32768\<close> and
  \<open>1 \<le> input_h \<le> window_h \<le> 32768\<close>, \<open>get_render_size\<close> returns
  \<open>out_w = window_w\<close> and \<open>out_h\<close> the integer part of the exact quotient
  \<open>window_w / (input_w / input_h)\<close>; if that \<open>out_h\<close> exceeds \<open>window_h\<close> it
  returns \<open>out_h = window_h\<close> and \<open>out_w\<close> the integer part of the exact product
  \<open>window_h * (input_w / input_h)\<close>. This is proved of the single-precision
  computation wherever the quotient (and, when the height is clamped, the product)
  is clear of the whole numbers by one part in \<open>2^22\<close>. The two sizes named in
  the claim have whole quotients and are evaluated directly:
  \<open>get_render_size 1280 720 1920 1080 = (1920, 1080)\<close> and
  \<open>get_render_size 720 480 1920 1080 = (1620, 1080)\<close>.
\<close>

theorem get_render_size_truncates:
  assumes "1 \<le> input_w" "input_w \<le> window_w" "window_w \<le> 32768"
    and "1 \<le> input_h" "input_h \<le> window_h" "window_h \<le> 32768"
    and "clear_of_integers (of_int window_w / (of_int input_w / of_int input_h))"
    and "window_h < \<lfloor>of_int window_w / (of_int input_w / of_int input_h :: rat)\<rfloor> \<Longrightarrow>
         clear_of_integers (of_int window_h * (of_int input_w / of_int input_h))"
  shows "get_render_size input_w input_h window_w window_h =
           Some (renderSize_trunc input_w input_h window_w window_h) \<and>
         get_render_size 1280 720 1920 1080 = Some (1920, 1080) \<and>
         get_render_size 720 480 1920 1080 = Some (1620, 1080)"
  using render_size_upscale_exact[OF assms] grs_1280_720 grs_720_480 by simp

text \<open>
  C1, amended, at two sources against the 1920 by 1080 target: 720 by 400, where
  the quotient 1066.67 becomes the height 1066, and 718 by 480, where the height
  1283 is clamped to 1080 and the product 1615.5 becomes the width 1615.
\<close>

theorem get_render_size_truncates_witness:
  "clear_of_integers (1920 / (720 / 400)) \<and>
   get_render_size 720 400 1920 1080 = Some (renderSize_trunc 720 400 1920 1080) \<and>
   renderSize_trunc 720 400 1920 1080 = (1920, 1066) \<and>
   clear_of_integers (1920 / (718 / 480)) \<and> clear_of_integers (1080 * (718 / 480)) \<and>
   get_render_size 718 480 1920 1080 = Some (renderSize_trunc 718 480 1920 1080) \<and>
   renderSize_trunc 718 480 1920 1080 = (1615, 1080)"
proof -
  have f: "\<lfloor>(3200::rat) / 3\<rfloor> = 1066" "\<lfloor>(460800::rat) / 359\<rfloor> = 1283"
    "\<lfloor>(3231::rat) / 2\<rfloor> = 1615"
    by (simp_all add: floor_eq_iff)
  have c: "clear_of_integers (1920 / (720 / 400))" "clear_of_integers (1920 / (718 / 480))"
    "clear_of_integers (1080 * (718 / 480))"
    by (simp_all add: clear_of_integers_def f)
  have r: "renderSize_trunc 720 400 1920 1080 = (1920, 1066)"
    "renderSize_trunc 718 480 1920 1080 = (1615, 1080)"
    by (simp_all add: renderSize_trunc_def Let_def f)
  have "get_render_size 720 400 1920 1080 = Some (renderSize_trunc 720 400 1920 1080)"
    using get_render_size_truncates[where input_w = 720 and input_h = 400
        and window_w = 1920 and window_h = 1080] c
    by simp
  moreover have "get_render_size 718 480 1920 1080 = Some (renderSize_trunc 718 480 1920 1080)"
    using get_render_size_truncates[where input_w = 718 and input_h = 480
        and window_w = 1920 and window_h = 1080] c
    by simp
  ultimately show ?thesis using c r by simp
qed

subsection \<open>What each function leaves unchanged, and what it returns\<close>

lemma do_call_fields [simp]:
  "opts (do_call c s) = opts s" "video_proc (do_call c s) = video_proc s"
  "vp_enum (do_call c s) = vp_enum s" "out_format (do_call c s) = out_format s"
  "params (do_call c s) = params s" "out_params (do_call c s) = out_params s"
  "c_w (do_call c s) = c_w s" "c_h (do_call c s) = c_h s" "pool (do_call c s) = pool s"
  "failed (do_call c s) = failed s" "out_pin (do_call c s) = out_pin s"
  "calls (do_call c s) = calls s @ [c]"
  by (simp_all add: do_call_def)

lemma mp_image_pool_clear_fields [simp]:
  "opts (mp_image_pool_clear s) = opts s" "video_proc (mp_image_pool_clear s) = video_proc s"
  "vp_enum (mp_image_pool_clear s) = vp_enum s" "out_format (mp_image_pool_clear s) = out_format s"
  "params (mp_image_pool_clear s) = params s" "out_params (mp_image_pool_clear s) = out_params s"
  "c_w (mp_image_pool_clear s) = c_w s" "c_h (mp_image_pool_clear s) = c_h s"
  "pool (mp_image_pool_clear s) = []" "failed (mp_image_pool_clear s) = failed s"
  "out_pin (mp_image_pool_clear s) = out_pin s"
  "calls (mp_image_pool_clear s) = calls s @ [Pool_clear]"
  by (simp_all add: mp_image_pool_clear_def)

lemma mp_filter_internal_mark_failed_fields [simp]:
  "opts (mp_filter_internal_mark_failed s) = opts s"
  "video_proc (mp_filter_internal_mark_failed s) = video_proc s"
  "vp_enum (mp_filter_internal_mark_failed s) = vp_enum s"
  "out_format (mp_filter_internal_mark_failed s) = out_format s"
  "params (mp_filter_internal_mark_failed s) = params s"
  "out_params (mp_filter_internal_mark_failed s) = out_params s"
  "c_w (mp_filter_internal_mark_failed s) = c_w s" "c_h (mp_filter_internal_mark_failed s) = c_h s"
  "pool (mp_filter_internal_mark_failed s) = pool s"
  "failed (mp_filter_internal_mark_failed s) = True"
  "out_pin (mp_filter_internal_mark_failed s) = out_pin s"
  "calls (mp_filter_internal_mark_failed s) = calls s @ [Mark_failed]"
  by (simp_all add: mp_filter_internal_mark_failed_def)

lemma mp_refqueue_write_out_pin_fields [simp]:
  "opts (mp_refqueue_write_out_pin mpi s) = opts s"
  "video_proc (mp_refqueue_write_out_pin mpi s) = video_proc s"
  "vp_enum (mp_refqueue_write_out_pin mpi s) = vp_enum s"
  "out_format (mp_refqueue_write_out_pin mpi s) = out_format s"
  "params (mp_refqueue_write_out_pin mpi s) = params s"
  "out_params (mp_refqueue_write_out_pin mpi s) = out_params s"
  "c_w (mp_refqueue_write_out_pin mpi s) = c_w s" "c_h (mp_refqueue_write_out_pin mpi s) = c_h s"
  "pool (mp_refqueue_write_out_pin mpi s) = pool s"
  "failed (mp_refqueue_write_out_pin mpi s) = failed s"
  "out_pin (mp_refqueue_write_out_pin mpi s) = out_pin s @ (case mpi of None \<Rightarrow> [] | Some i \<Rightarrow> [i])"
  "calls (mp_refqueue_write_out_pin mpi s) = calls s @ [Write_out_pin mpi]"
  by (simp_all add: mp_refqueue_write_out_pin_def)

lemma destroy_video_proc_fields [simp]:
  "opts (destroy_video_proc s) = opts s" "video_proc (destroy_video_proc s) = None"
  "vp_enum (destroy_video_proc s) = None" "out_format (destroy_video_proc s) = out_format s"
  "params (destroy_video_proc s) = params s" "out_params (destroy_video_proc s) = out_params s"
  "c_w (destroy_video_proc s) = c_w s" "c_h (destroy_video_proc s) = c_h s"
  "pool (destroy_video_proc s) = pool s" "failed (destroy_video_proc s) = failed s"
  "out_pin (destroy_video_proc s) = out_pin s"
  by (simp_all add: destroy_video_proc_def Let_def split: option.splits)

lemma destroy_video_proc_calls:
  "calls (destroy_video_proc s) =
     calls s @ (case video_proc s of None \<Rightarrow> [] | Some h \<Rightarrow> [VideoProcessor_Release h])
             @ (case vp_enum s of None \<Rightarrow> [] | Some h \<Rightarrow> [VideoProcessorEnumerator_Release h])"
  by (simp add: destroy_video_proc_def Let_def split: option.splits)

lemma destroy_video_proc_gpu [simp]:
  "filter gpu_work (calls (destroy_video_proc s)) = filter gpu_work (calls s)"
  by (simp add: destroy_video_proc_calls split: option.splits)

lemma process_reinit_none: "execute_reinit e = None \<Longrightarrow> process_reinit e s = Some s"
  by (simp add: process_reinit_def)

lemma process_reinit_off:
  "mode (opts s) = SUPER_RESOLUTION_OFF \<Longrightarrow> execute_reinit e = Some in_fmt \<Longrightarrow>
   process_reinit e s =
     Some ((destroy_video_proc (mp_image_pool_clear s))
             \<lparr>params := img_params in_fmt, out_params := img_params in_fmt\<rparr>)"
  by (simp add: process_reinit_def Let_def)

lemma process_reinit_gpu:
  "process_reinit e s = Some s1 \<Longrightarrow> filter gpu_work (calls s1) = filter gpu_work (calls s)"
  by (auto simp: process_reinit_def Let_def mp_image_pool_clear_def split: option.splits if_splits bind_splits)

lemma process_reinit_keeps:
  "process_reinit e s = Some s1 \<Longrightarrow>
     opts s1 = opts s \<and> failed s1 = failed s \<and> out_pin s1 = out_pin s"
  by (auto simp: process_reinit_def Let_def mp_image_pool_clear_def split: option.splits if_splits bind_splits)

lemma rebuilds_append [simp]: "rebuilds (xs @ ys) = rebuilds xs + rebuilds ys"
  by (simp add: rebuilds_def)

lemma rebuilds_Nil [simp]: "rebuilds [] = 0"
  by (simp add: rebuilds_def)

lemma rebuilds_Cons [simp]: "rebuilds (c # cs) = (if is_rebuild c then 1 else 0) + rebuilds cs"
  by (simp add: rebuilds_def)

lemma destroy_video_proc_rebuilds [simp]:
  "rebuilds (calls (destroy_video_proc s)) = rebuilds (calls s)"
  by (simp add: destroy_video_proc_calls split: option.splits)

lemma cleanup_fst [simp]:
  "fst (cleanup iv ov res out s) = (if res < 0 then None else out)"
  by (simp add: cleanup_def Let_def)

lemma cleanup_fields [simp]:
  "opts (snd (cleanup iv ov res out s)) = opts s"
  "video_proc (snd (cleanup iv ov res out s)) = video_proc s"
  "vp_enum (snd (cleanup iv ov res out s)) = vp_enum s"
  "out_format (snd (cleanup iv ov res out s)) = out_format s"
  "params (snd (cleanup iv ov res out s)) = params s"
  "out_params (snd (cleanup iv ov res out s)) = out_params s"
  "c_w (snd (cleanup iv ov res out s)) = c_w s"
  "c_h (snd (cleanup iv ov res out s)) = c_h s"
  "pool (snd (cleanup iv ov res out s)) = pool s"
  "failed (snd (cleanup iv ov res out s)) = failed s"
  "out_pin (snd (cleanup iv ov res out s)) = out_pin s"
  by (simp_all add: cleanup_def Let_def split: option.splits)

lemma cleanup_calls:
  "calls (snd (cleanup iv ov res out s)) =
     calls s @ (if iv then [InputView_Release] else [])
             @ (if ov then [OutputView_Release] else [])
             @ (if res < 0 \<and> out \<noteq> None then [Image_free] else [])"
  by (simp add: cleanup_def Let_def split: option.splits)

lemma cleanup_rebuilds [simp]:
  "rebuilds (calls (snd (cleanup iv ov res out s))) = rebuilds (calls s)"
  by (simp add: cleanup_calls)

lemma SetSuperResNvidia_fields [simp]:
  "opts (SetSuperResNvidia e s) = opts s"
  "video_proc (SetSuperResNvidia e s) = video_proc s"
  "vp_enum (SetSuperResNvidia e s) = vp_enum s"
  "out_format (SetSuperResNvidia e s) = out_format s"
  "params (SetSuperResNvidia e s) = params s"
  "out_params (SetSuperResNvidia e s) = out_params s"
  "c_w (SetSuperResNvidia e s) = c_w s"
  "c_h (SetSuperResNvidia e s) = c_h s"
  "pool (SetSuperResNvidia e s) = pool s"
  "failed (SetSuperResNvidia e s) = failed s"
  "out_pin (SetSuperResNvidia e s) = out_pin s"
  by (simp_all add: SetSuperResNvidia_def Let_def)

lemma SetSuperResNvidia_calls:
  "calls (SetSuperResNvidia e s) =
     calls s @ [SetStreamExtension kNvidiaPPEInterfaceGUID
                  [kStreamExtensionVersionV1, kStreamExtensionMethodSuperResolution, 1]]
             @ (if hr_nvidia_extension e then [] else [MP_ERR ''Failed to enable Nvidia RTX Super RES.''])"
  by (simp add: SetSuperResNvidia_def Let_def)

lemma SetSuperResIntel_fields [simp]:
  "opts (SetSuperResIntel e s) = opts s"
  "video_proc (SetSuperResIntel e s) = video_proc s"
  "vp_enum (SetSuperResIntel e s) = vp_enum s"
  "out_format (SetSuperResIntel e s) = out_format s"
  "params (SetSuperResIntel e s) = params s"
  "out_params (SetSuperResIntel e s) = out_params s"
  "c_w (SetSuperResIntel e s) = c_w s"
  "c_h (SetSuperResIntel e s) = c_h s"
  "pool (SetSuperResIntel e s) = pool s"
  "failed (SetSuperResIntel e s) = failed s"
  "out_pin (SetSuperResIntel e s) = out_pin s"
  by (simp_all add: SetSuperResIntel_def Let_def)

lemma SetSuperResIntel_calls:
  "calls (SetSuperResIntel e s) =
     calls s @
     take (if \<not> hr_vpe_version e then 1 else if \<not> hr_vpe_mode e then 2 else 3)
       [SetOutputExtension GUID_INTEL_VPE_INTERFACE [kIntelVpeFnVersion, kIntelVpeVersion3],
        SetOutputExtension GUID_INTEL_VPE_INTERFACE [kIntelVpeFnMode, kIntelVpeModePreproc],
        SetStreamExtension GUID_INTEL_VPE_INTERFACE [kIntelVpeFnScaling, kIntelVpeScalingSuperResolution]] @
     (if hr_vpe_version e \<and> hr_vpe_mode e \<and> hr_vpe_scaling e then []
      else [MP_ERR ''Failed to enable Intel RES.''])"
  by (simp add: SetSuperResIntel_def Let_def)

lemma vendor_rebuilds [simp]:
  "rebuilds (calls (SetSuperResNvidia e s)) = rebuilds (calls s)"
  "rebuilds (calls (SetSuperResIntel e s)) = rebuilds (calls s)"
  by (simp_all add: SetSuperResNvidia_calls SetSuperResIntel_calls)

lemma recreate_video_proc_fst:
  "fst (recreate_video_proc e s) = (if rebuild_fails e then - 1 else 0)"
  by (simp add: recreate_video_proc_def rebuild_fails_def Let_def split: option.splits)

lemma recreate_video_proc_fields [simp]:
  "opts (snd (recreate_video_proc e s)) = opts s"
  "out_format (snd (recreate_video_proc e s)) = out_format s"
  "params (snd (recreate_video_proc e s)) = params s"
  "out_params (snd (recreate_video_proc e s)) = out_params s"
  "c_w (snd (recreate_video_proc e s)) = c_w s"
  "c_h (snd (recreate_video_proc e s)) = c_h s"
  "pool (snd (recreate_video_proc e s)) = pool s"
  "failed (snd (recreate_video_proc e s)) = failed s"
  "out_pin (snd (recreate_video_proc e s)) = out_pin s"
  by (simp_all add: recreate_video_proc_def Let_def split: option.splits)

lemma recreate_video_proc_handles:
  "video_proc (snd (recreate_video_proc e s)) = (if rebuild_fails e then None else hr_create_processor e)"
  "vp_enum (snd (recreate_video_proc e s)) = (if rebuild_fails e then None else hr_create_enumerator e)"
  by (auto simp: recreate_video_proc_def rebuild_fails_def Let_def split: option.splits)

lemma recreate_video_proc_rebuilds [simp]:
  "rebuilds (calls (snd (recreate_video_proc e s))) = rebuilds (calls s) + 1"
  by (simp add: recreate_video_proc_def Let_def split: option.splits)

lemma input_surface_fields [simp]:
  "opts (snd (input_surface inp s)) = opts s"
  "video_proc (snd (input_surface inp s)) = video_proc s"
  "vp_enum (snd (input_surface inp s)) = vp_enum s"
  "out_format (snd (input_surface inp s)) = out_format s"
  "params (snd (input_surface inp s)) = params s"
  "out_params (snd (input_surface inp s)) = out_params s"
  "c_w (snd (input_surface inp s)) = c_w s"
  "c_h (snd (input_surface inp s)) = c_h s"
  "pool (snd (input_surface inp s)) = pool s"
  "failed (snd (input_surface inp s)) = failed s"
  "out_pin (snd (input_surface inp s)) = out_pin s"
  "rebuilds (calls (snd (input_surface inp s))) = rebuilds (calls s)"
  by (simp_all add: input_surface_def)

lemma input_surface_size:
  "input_surface inp s = ((W, H, sub), s') \<Longrightarrow> surface_size inp = (int W, int H)"
  by (auto simp: input_surface_def surface_size_def split: if_splits)

lemma input_surface_fst [simp]:
  "int (fst (fst (input_surface inp s))) = fst (surface_size inp)"
  "int (fst (snd (fst (input_surface inp s)))) = snd (surface_size inp)"
  by (simp_all add: input_surface_def surface_size_def)

lemma mp_image_pool_get_fields [simp]:
  "opts (snd (mp_image_pool_get e w0 h0 s)) = opts s"
  "video_proc (snd (mp_image_pool_get e w0 h0 s)) = video_proc s"
  "vp_enum (snd (mp_image_pool_get e w0 h0 s)) = vp_enum s"
  "out_format (snd (mp_image_pool_get e w0 h0 s)) = out_format s"
  "params (snd (mp_image_pool_get e w0 h0 s)) = params s"
  "out_params (snd (mp_image_pool_get e w0 h0 s)) = out_params s"
  "c_w (snd (mp_image_pool_get e w0 h0 s)) = c_w s"
  "c_h (snd (mp_image_pool_get e w0 h0 s)) = c_h s"
  "failed (snd (mp_image_pool_get e w0 h0 s)) = failed s"
  "out_pin (snd (mp_image_pool_get e w0 h0 s)) = out_pin s"
  "rebuilds (calls (snd (mp_image_pool_get e w0 h0 s))) = rebuilds (calls s)"
  by (simp_all add: mp_image_pool_get_def Let_def split: option.splits)

lemma vendor_adapter_fields [simp]:
  "opts (vendor_adapter e s) = opts s"
  "video_proc (vendor_adapter e s) = video_proc s"
  "vp_enum (vendor_adapter e s) = vp_enum s"
  "out_format (vendor_adapter e s) = out_format s"
  "params (vendor_adapter e s) = params s"
  "out_params (vendor_adapter e s) = out_params s"
  "c_w (vendor_adapter e s) = c_w s"
  "c_h (vendor_adapter e s) = c_h s"
  "pool (vendor_adapter e s) = pool s"
  "failed (vendor_adapter e s) = failed s"
  "out_pin (vendor_adapter e s) = out_pin s"
  "rebuilds (calls (vendor_adapter e s)) = rebuilds (calls s)"
  by (simp_all add: vendor_adapter_def split: sr_mode.splits)

lemma render_submit_fields [simp]:
  "opts (snd (render_submit e sub out s)) = opts s"
  "video_proc (snd (render_submit e sub out s)) = video_proc s"
  "vp_enum (snd (render_submit e sub out s)) = vp_enum s"
  "out_format (snd (render_submit e sub out s)) = out_format s"
  "params (snd (render_submit e sub out s)) = params s"
  "out_params (snd (render_submit e sub out s)) = out_params s"
  "c_w (snd (render_submit e sub out s)) = c_w s"
  "c_h (snd (render_submit e sub out s)) = c_h s"
  "pool (snd (render_submit e sub out s)) = pool s"
  "failed (snd (render_submit e sub out s)) = failed s"
  "out_pin (snd (render_submit e sub out s)) = out_pin s"
  "rebuilds (calls (snd (render_submit e sub out s))) = rebuilds (calls s)"
  by (simp_all add: render_submit_def Let_def)

lemma render_submit_fst:
  "fst (render_submit e sub out s) =
     (if hr_input_view e \<and> hr_output_view e \<and> hr_blt e then Some out else None)"
  by (simp add: render_submit_def Let_def)

lemma render_frame_fields [simp]:
  "opts (snd (render_frame e out0 inp s)) = opts s"
  "out_format (snd (render_frame e out0 inp s)) = out_format s"
  "params (snd (render_frame e out0 inp s)) = params s"
  "out_params (snd (render_frame e out0 inp s)) = out_params s"
  "pool (snd (render_frame e out0 inp s)) = pool s"
  "failed (snd (render_frame e out0 inp s)) = failed s"
  "out_pin (snd (render_frame e out0 inp s)) = out_pin s"
  by (simp_all add: render_frame_def Let_def split_beta)

lemma render_frame_rebuilds:
  "rebuilds (calls (snd (render_frame e out0 inp s))) =
     rebuilds (calls s) + (if rebuild_needed s inp then 1 else 0)"
  by (simp add: render_frame_def Let_def split_beta rebuild_needed_def)

lemma render_frame_processor:
  "video_proc (snd (render_frame e out0 inp s)) =
     (if rebuild_needed s inp then (if rebuild_fails e then None else hr_create_processor e)
      else video_proc s)"
  "vp_enum (snd (render_frame e out0 inp s)) =
     (if rebuild_needed s inp then (if rebuild_fails e then None else hr_create_enumerator e)
      else vp_enum s)"
  "c_w (snd (render_frame e out0 inp s)) =
     (if rebuild_needed s inp then fst (surface_size inp) else c_w s)"
  "c_h (snd (render_frame e out0 inp s)) =
     (if rebuild_needed s inp then snd (surface_size inp) else c_h s)"
  by (simp_all add: render_frame_def Let_def split_beta rebuild_needed_def recreate_video_proc_handles)

lemma render_frame_result:
  "fst (render_frame e out0 inp s) = None \<longleftrightarrow>
     (rebuild_needed s inp \<and> rebuild_fails e) \<or>
     \<not> hr_input_view e \<or> \<not> hr_output_view e \<or> \<not> hr_blt e"
  by (simp add: render_frame_def Let_def split_beta rebuild_needed_def recreate_video_proc_fst
        render_submit_fst)

lemma rebuild_needed_cong:
  "video_proc s' = video_proc s \<Longrightarrow> c_w s' = c_w s \<Longrightarrow> c_h s' = c_h s \<Longrightarrow>
   rebuild_needed s' inp = rebuild_needed s inp"
  by (simp add: rebuild_needed_def)

lemma render_fields [simp]:
  "opts (snd (render e s)) = opts s"
  "out_format (snd (render e s)) = out_format s"
  "params (snd (render e s)) = params s"
  "out_params (snd (render e s)) = out_params s"
  "failed (snd (render e s)) = failed s"
  "out_pin (snd (render e s)) = out_pin s"
  by (simp_all add: render_def mp_image_pool_get_def Let_def split: option.splits)

lemma render_rebuilds:
  "rebuilds (calls (snd (render e s))) =
     rebuilds (calls s) +
     (if pool_get e \<noteq> None \<and> refqueue_get e \<noteq> None \<and> rebuild_needed s (the (refqueue_get e))
      then 1 else 0)"
  by (simp add: render_def mp_image_pool_get_def Let_def render_frame_rebuilds rebuild_needed_def
           split: option.splits)

lemma render_processor:
  "video_proc (snd (render e s)) =
     (if pool_get e \<noteq> None \<and> refqueue_get e \<noteq> None \<and> rebuild_needed s (the (refqueue_get e))
      then (if rebuild_fails e then None else hr_create_processor e) else video_proc s)"
  "vp_enum (snd (render e s)) =
     (if pool_get e \<noteq> None \<and> refqueue_get e \<noteq> None \<and> rebuild_needed s (the (refqueue_get e))
      then (if rebuild_fails e then None else hr_create_enumerator e) else vp_enum s)"
  "c_w (snd (render e s)) =
     (if pool_get e \<noteq> None \<and> refqueue_get e \<noteq> None \<and> rebuild_needed s (the (refqueue_get e))
      then fst (surface_size (the (refqueue_get e))) else c_w s)"
  "c_h (snd (render e s)) =
     (if pool_get e \<noteq> None \<and> refqueue_get e \<noteq> None \<and> rebuild_needed s (the (refqueue_get e))
      then snd (surface_size (the (refqueue_get e))) else c_h s)"
  by (simp_all add: render_def mp_image_pool_get_def Let_def render_frame_processor rebuild_needed_def
           split: option.splits)

lemma render_result:
  "fst (render e s) = None \<longleftrightarrow>
     pool_get e = None \<or> refqueue_get e = None \<or>
     (rebuild_needed s (the (refqueue_get e)) \<and> rebuild_fails e) \<or>
     \<not> hr_input_view e \<or> \<not> hr_output_view e \<or> \<not> hr_blt e"
  by (simp add: render_def mp_image_pool_get_def Let_def render_frame_result rebuild_needed_def
           split: option.splits)

lemma process_output_fields [simp]:
  "opts (process_output e s) = opts s"
  "params (process_output e s) = params s"
  "out_params (process_output e s) = out_params s"
  "out_format (process_output e s) = out_format s"
  by (simp_all add: process_output_def Let_def split_beta split: option.splits)

lemma process_output_failed:
  "failed (process_output e s) \<longleftrightarrow>
     failed s \<or>
     (can_output e \<and>
      (par_w (params s) mod 2 \<noteq> 0 \<or> par_h (params s) mod 2 \<noteq> 0 \<or>
       (mode (opts s) = SUPER_RESOLUTION_OFF \<and> (\<not> new_ref_ok e \<or> refqueue_get e = None))))"
  by (auto simp: process_output_def Let_def split_beta split: option.splits)

lemma process_output_out_pin:
  "out_pin (process_output e s) =
     out_pin s @
     (if can_output e \<and> par_w (params s) mod 2 = 0 \<and> par_h (params s) mod 2 = 0
      then (case (if mode (opts s) = SUPER_RESOLUTION_OFF
                  then (if new_ref_ok e then refqueue_get e else None)
                  else fst (render e s)) of
              None \<Rightarrow> [] | Some i \<Rightarrow> [i])
      else [])"
  by (auto simp: process_output_def Let_def split_beta split: option.splits)

lemma process_output_rebuilds:
  "rebuilds (calls (process_output e s)) =
     rebuilds (calls s) +
     (if reaches_render e s \<and> rebuild_needed s (the (refqueue_get e)) then 1 else 0)"
  by (auto simp: process_output_def Let_def split_beta reaches_render_def render_rebuilds
           split: option.splits)

lemma process_output_processor:
  "video_proc (process_output e s) =
     (if reaches_render e s \<and> rebuild_needed s (the (refqueue_get e))
      then (if rebuild_fails e then None else hr_create_processor e) else video_proc s)"
  "vp_enum (process_output e s) =
     (if reaches_render e s \<and> rebuild_needed s (the (refqueue_get e))
      then (if rebuild_fails e then None else hr_create_enumerator e) else vp_enum s)"
  "c_w (process_output e s) =
     (if reaches_render e s \<and> rebuild_needed s (the (refqueue_get e))
      then fst (surface_size (the (refqueue_get e))) else c_w s)"
  "c_h (process_output e s) =
     (if reaches_render e s \<and> rebuild_needed s (the (refqueue_get e))
      then snd (surface_size (the (refqueue_get e))) else c_h s)"
  by (auto simp: process_output_def Let_def split_beta reaches_render_def render_processor
           split: option.splits)

lemma process_output_last_call:
  "can_output e \<Longrightarrow> par_w (params s) mod 2 = 0 \<Longrightarrow> par_h (params s) mod 2 = 0 \<Longrightarrow>
   mode (opts s) \<noteq> SUPER_RESOLUTION_OFF \<Longrightarrow>
   calls (process_output e s) = calls (snd (render e s)) @ [Write_out_pin (fst (render e s))]"
  by (simp add: process_output_def split_beta)

lemma destroy_video_proc_release:
  "filter is_release (calls (destroy_video_proc s)) =
     filter is_release (calls s) @
     (case video_proc s of None \<Rightarrow> [] | Some h \<Rightarrow> [VideoProcessor_Release h]) @
     (case vp_enum s of None \<Rightarrow> [] | Some h \<Rightarrow> [VideoProcessorEnumerator_Release h])"
  by (simp add: destroy_video_proc_calls split: option.splits)

lemma recreate_video_proc_release:
  "rebuild_fails e \<Longrightarrow>
   filter is_release (calls (snd (recreate_video_proc e s))) =
     filter is_release (calls s) @
     (case video_proc s of None \<Rightarrow> [] | Some h \<Rightarrow> [VideoProcessor_Release h]) @
     (case vp_enum s of None \<Rightarrow> [] | Some h \<Rightarrow> [VideoProcessorEnumerator_Release h]) @
     (case hr_create_enumerator e of None \<Rightarrow> [] | Some h \<Rightarrow> [VideoProcessorEnumerator_Release h])"
  by (auto simp: recreate_video_proc_def rebuild_fails_def Let_def destroy_video_proc_release
           split: option.splits)

lemma cleanup_release [simp]:
  "filter is_release (calls (snd (cleanup iv ov res out s))) = filter is_release (calls s)"
  by (simp add: cleanup_calls)

lemma input_surface_release [simp]:
  "filter is_release (calls (snd (input_surface inp s))) = filter is_release (calls s)"
  by (simp add: input_surface_def)

lemma render_frame_release:
  "rebuild_needed s inp \<Longrightarrow> rebuild_fails e \<Longrightarrow>
   filter is_release (calls (snd (render_frame e out0 inp s))) =
     filter is_release (calls s) @
     (case video_proc s of None \<Rightarrow> [] | Some h \<Rightarrow> [VideoProcessor_Release h]) @
     (case vp_enum s of None \<Rightarrow> [] | Some h \<Rightarrow> [VideoProcessorEnumerator_Release h]) @
     (case hr_create_enumerator e of None \<Rightarrow> [] | Some h \<Rightarrow> [VideoProcessorEnumerator_Release h])"
  by (simp add: render_frame_def Let_def split_beta rebuild_needed_def recreate_video_proc_fst
        recreate_video_proc_release)

lemma render_release:
  "pool_get e \<noteq> None \<Longrightarrow> refqueue_get e = Some inp \<Longrightarrow> rebuild_needed s inp \<Longrightarrow>
   rebuild_fails e \<Longrightarrow>
   filter is_release (calls (snd (render e s))) =
     filter is_release (calls s) @
     (case video_proc s of None \<Rightarrow> [] | Some h \<Rightarrow> [VideoProcessor_Release h]) @
     (case vp_enum s of None \<Rightarrow> [] | Some h \<Rightarrow> [VideoProcessorEnumerator_Release h]) @
     (case hr_create_enumerator e of None \<Rightarrow> [] | Some h \<Rightarrow> [VideoProcessorEnumerator_Release h])"
  by (auto simp: render_def mp_image_pool_get_def Let_def render_frame_release rebuild_needed_def
           split: option.splits)

lemma process_reinit_rebuilds:
  "process_reinit e s = Some s1 \<Longrightarrow> rebuilds (calls s1) = rebuilds (calls s)"
  by (auto simp: process_reinit_def Let_def split: option.splits if_splits bind_splits)

lemma process_reinit_state:
  "process_reinit e s = Some s1 \<Longrightarrow> execute_reinit e = Some f \<Longrightarrow>
   params s1 = img_params f \<and> video_proc s1 = None \<and> vp_enum s1 = None \<and> pool s1 = []"
  by (auto simp: process_reinit_def Let_def split: if_splits bind_splits)

lemma sample_env_fields [simp]:
  "execute_reinit sample_env = None" "can_output sample_env"
  "refqueue_get sample_env = Some (sample_frame 1 1920 1080)" "new_ref_ok sample_env"
  "pool_get sample_env = Some 100" "is_second_field sample_env = False"
  "hr_create_enumerator sample_env = Some 1" "hr_get_caps sample_env"
  "hr_create_processor sample_env = Some 2" "hr_input_view sample_env"
  "hr_output_view sample_env" "hr_nvidia_extension sample_env" "hr_vpe_version sample_env"
  "hr_vpe_mode sample_env" "hr_vpe_scaling sample_env" "hr_blt sample_env"
  by (simp_all add: sample_env_def)

lemma sample_state_fields [simp]:
  "opts (sample_state m sc) = \<lparr>mode = m, scale = sc\<rparr>" "video_proc (sample_state m sc) = None"
  "vp_enum (sample_state m sc) = None" "params (sample_state m sc) = zero_params"
  "out_params (sample_state m sc) = zero_params" "c_w (sample_state m sc) = 0"
  "c_h (sample_state m sc) = 0" "pool (sample_state m sc) = []"
  "failed (sample_state m sc) = False" "out_pin (sample_state m sc) = []"
  "calls (sample_state m sc) = []"
  by (simp_all add: sample_state_def)

lemma sample_frame_fields [simp]:
  "img_w (sample_frame i a b) = a" "img_h (sample_frame i a b) = b"
  "par_w (img_params (sample_frame i a b)) = a" "par_h (img_params (sample_frame i a b)) = b"
  "img_imgfmt (sample_frame i a b) = IMGFMT_D3D11"
  "img_tex_w (sample_frame i a b) = nat a" "img_tex_h (sample_frame i a b) = nat b"
  by (simp_all add: sample_frame_def)

lemma zero_params_fields [simp]: "par_w zero_params = 0" "par_h zero_params = 0"
  by (simp_all add: zero_params_def)

lemma sample_state_created:
  "vf_d3d11sr_create
     \<lparr>filter_created = True, stream_info_found = True, hwdec_ctx_found = True,
      query_video_device_ok = True, immediate_context_found = True,
      query_video_context_ok = True\<rparr> \<lparr>mode = m, scale = sc\<rparr> = Some (sample_state m sc)"
  by (simp add: vf_d3d11sr_create_def sample_state_def)

lemma playing_state_fields [simp]:
  "opts (playing_state m sc) = \<lparr>mode = m, scale = sc\<rparr>" "video_proc (playing_state m sc) = None"
  "vp_enum (playing_state m sc) = None"
  "params (playing_state m sc) = img_params (sample_frame 1 1920 1080)"
  "out_params (playing_state m sc) = img_params (sample_frame 1 1920 1080)"
  "c_w (playing_state m sc) = 0" "c_h (playing_state m sc) = 0" "pool (playing_state m sc) = []"
  "failed (playing_state m sc) = False" "out_pin (playing_state m sc) = []"
  "calls (playing_state m sc) = [Pool_clear]"
  by (simp_all add: playing_state_def)

lemma grs_1920_1080: "get_render_size 1920 1080 1920 1080 = Some (1920, 1080)"
proof -
  have a: "float_div 1920 1080 = Some (14913081 / 8388608)"
    using fl32_eqI[of 0 "1920 / 1080" 14913081] by (simp add: float_div_def pow2_def)
  have q: "float_div 1920 (14913081 / 8388608) = Some 1080"
    using fl32_eqI[of 10 "1920 / (14913081 / 8388608)" 8847360] by (simp add: float_div_def pow2_def)
  have t: "float_to_int 1080 = Some 1080"
    using float_to_int_int[of 1080] by (simp add: INT_MIN_def INT_MAX_def)
  show ?thesis
    by (simp add: get_render_size_def int_to_float_exact a q t)
qed

lemma playing_state_reached:
  "m \<noteq> SUPER_RESOLUTION_OFF \<Longrightarrow>
   process_reinit (sample_env\<lparr>execute_reinit := Some (sample_frame 1 1920 1080)\<rparr>)
     (sample_state m SUPER_RESOLUTION_1080P) = Some (playing_state m SUPER_RESOLUTION_1080P)"
  by (simp add: process_reinit_def Let_def scale_window_def grs_1920_1080 playing_state_def
        sample_state_def mp_image_pool_clear_def destroy_video_proc_def do_call_def sample_frame_def)

lemma destroy_video_proc_marks [simp]:
  "filter is_mark_failed (calls (destroy_video_proc s)) = filter is_mark_failed (calls s)"
  by (simp add: destroy_video_proc_calls split: option.splits)

lemma cleanup_marks [simp]:
  "filter is_mark_failed (calls (snd (cleanup iv ov res out s))) = filter is_mark_failed (calls s)"
  by (simp add: cleanup_calls)

lemma vendor_adapter_marks [simp]:
  "filter is_mark_failed (calls (vendor_adapter e s)) = filter is_mark_failed (calls s)"
  by (simp add: vendor_adapter_def SetSuperResNvidia_calls SetSuperResIntel_calls
        split: sr_mode.splits)

lemma recreate_video_proc_marks [simp]:
  "filter is_mark_failed (calls (snd (recreate_video_proc e s))) = filter is_mark_failed (calls s)"
  by (simp add: recreate_video_proc_def Let_def split: option.splits)

lemma input_surface_marks [simp]:
  "filter is_mark_failed (calls (snd (input_surface inp s))) = filter is_mark_failed (calls s)"
  by (simp add: input_surface_def)

lemma render_submit_marks [simp]:
  "filter is_mark_failed (calls (snd (render_submit e sub out s))) = filter is_mark_failed (calls s)"
  by (simp add: render_submit_def Let_def)

lemma render_frame_marks [simp]:
  "filter is_mark_failed (calls (snd (render_frame e out0 inp s))) = filter is_mark_failed (calls s)"
  by (simp add: render_frame_def Let_def split_beta)

lemma render_marks [simp]:
  "filter is_mark_failed (calls (snd (render e s))) = filter is_mark_failed (calls s)"
  by (simp add: render_def mp_image_pool_get_def Let_def split: option.splits)

lemma process_reinit_marks:
  "process_reinit e s = Some s1 \<Longrightarrow>
   filter is_mark_failed (calls s1) = filter is_mark_failed (calls s)"
  by (auto simp: process_reinit_def Let_def split: option.splits if_splits bind_splits)

lemma process_output_marks:
  "filter is_mark_failed (calls (process_output e s)) =
     filter is_mark_failed (calls s) @
     (if can_output e \<and>
         (par_w (params s) mod 2 \<noteq> 0 \<or> par_h (params s) mod 2 \<noteq> 0 \<or>
          (mode (opts s) = SUPER_RESOLUTION_OFF \<and> (\<not> new_ref_ok e \<or> refqueue_get e = None)))
      then [Mark_failed] else [])"
  by (auto simp: process_output_def Let_def split_beta split: option.splits)

subsection \<open>The parity check\<close>

text \<open>
  C3. In every scheduling cycle in which the stream parameters (as they stand
  after the reinit check) have an odd width or an odd height, no GPU allocation
  or render work is attempted and nothing is written to the output. The checks
  run in the order reinit, buffering sufficiency, parity: the parity is that of
  the parameters after the reinit; without enough input the cycle ends right
  after the reinit check; with enough input the stream is marked failed, the
  error message and the mark being the only calls after the reinit.
\<close>

theorem odd_size_fails_stream:
  assumes "process_reinit e s = Some s1"
    and "par_w (params s1) mod 2 \<noteq> 0 \<or> par_h (params s1) mod 2 \<noteq> 0"
  shows "\<exists>s'. vf_d3d11sr_process e s = Some s' \<and>
           (can_output e \<longrightarrow>
              failed s' \<and>
              calls s' = calls s1 @ [MP_ERR ''Cannot process video when width or height is uneven value'',
                                     Mark_failed]) \<and>
           (\<not> can_output e \<longrightarrow> s' = s1) \<and>
           filter gpu_work (calls s') = filter gpu_work (calls s) \<and>
           out_pin s' = out_pin s \<and> pool s' = pool s1 \<and>
           video_proc s' = video_proc s1 \<and> vp_enum s' = vp_enum s1"
  using assms process_reinit_gpu[OF assms(1)] process_reinit_keeps[OF assms(1)]
  by (auto simp: vf_d3d11sr_process_def process_output_def mp_filter_internal_mark_failed_def)

text \<open>
  C3 at a cycle whose reinit frame is 853 by 480: the stream is marked failed
  and nothing is output.
\<close>

theorem odd_size_fails_stream_witness:
  "\<exists>s1. process_reinit (sample_env\<lparr>execute_reinit := Some (sample_frame 1 853 480)\<rparr>)
           (sample_state SUPER_RESOLUTION_OFF SUPER_RESOLUTION_AUTO) = Some s1 \<and>
        (par_w (params s1) mod 2 \<noteq> 0 \<or> par_h (params s1) mod 2 \<noteq> 0) \<and>
        can_output (sample_env\<lparr>execute_reinit := Some (sample_frame 1 853 480)\<rparr>) \<and>
        (\<exists>s'. vf_d3d11sr_process (sample_env\<lparr>execute_reinit := Some (sample_frame 1 853 480)\<rparr>)
                 (sample_state SUPER_RESOLUTION_OFF SUPER_RESOLUTION_AUTO) = Some s' \<and>
              failed s' \<and> out_pin s' = [])"
proof -
  let ?e = "sample_env\<lparr>execute_reinit := Some (sample_frame 1 853 480)\<rparr>"
  let ?s = "sample_state SUPER_RESOLUTION_OFF SUPER_RESOLUTION_AUTO"
  have "mode (opts ?s) = SUPER_RESOLUTION_OFF" by (simp add: sample_state_def)
  moreover have "execute_reinit ?e = Some (sample_frame 1 853 480)" by simp
  ultimately obtain s1 where r: "process_reinit ?e ?s = Some s1"
    and p: "params s1 = img_params (sample_frame 1 853 480)"
    using process_reinit_off[of ?s ?e] by simp
  have o: "par_w (params s1) mod 2 \<noteq> 0 \<or> par_h (params s1) mod 2 \<noteq> 0"
    by (simp add: p sample_frame_def)
  have c: "can_output ?e" by (simp add: sample_env_def)
  have "out_pin ?s = []" by (simp add: sample_state_def)
  with odd_size_fails_stream[OF r o] r o c show ?thesis by auto
qed

subsection \<open>When the processor is rebuilt\<close>

text \<open>
  C4, as the specification states it: it fails when a rebuild fails. Two
  consecutive frames have the same surface size 1280 by 720; the creation of the
  processor fails in the first cycle, so the second cycle finds no processor and
  rebuilds again: two rebuilds for one size.
\<close>

theorem rebuild_retry_counterexample:
  "surface_size (sample_frame 2 1280 720) = surface_size (sample_frame 3 1280 720) \<and>
   map_option (\<lambda>s. rebuilds (calls s))
     (run [sample_env\<lparr>execute_reinit := Some (sample_frame 2 1280 720),
                      refqueue_get := Some (sample_frame 2 1280 720),
                      hr_create_processor := None\<rparr>,
           sample_env\<lparr>refqueue_get := Some (sample_frame 3 1280 720)\<rparr>]
        (sample_state SUPER_RESOLUTION_NVIDIA SUPER_RESOLUTION_1080P))
   = Some 2"
proof -
  let ?e1 = "sample_env\<lparr>execute_reinit := Some (sample_frame 2 1280 720),
                      refqueue_get := Some (sample_frame 2 1280 720),
                      hr_create_processor := None\<rparr>"
  let ?e2 = "sample_env\<lparr>refqueue_get := Some (sample_frame 3 1280 720)\<rparr>"
  let ?s = "sample_state SUPER_RESOLUTION_NVIDIA SUPER_RESOLUTION_1080P"
  obtain s1 where r: "process_reinit ?e1 ?s = Some s1"
    by (simp add: process_reinit_def Let_def scale_window_def grs_1280_720)
  have k: "opts s1 = opts ?s" "params s1 = img_params (sample_frame 2 1280 720)"
    "video_proc s1 = None" "rebuilds (calls s1) = 0"
    using process_reinit_keeps[OF r] process_reinit_state[OF r] process_reinit_rebuilds[OF r]
    by simp_all
  let ?s2 = "process_output ?e1 s1"
  have rr1: "reaches_render ?e1 s1" using k by (simp add: reaches_render_def)
  have f1: "rebuild_fails ?e1" by (simp add: rebuild_fails_def)
  have n1: "rebuild_needed s1 (the (refqueue_get ?e1))" using k by (simp add: rebuild_needed_def)
  have s2: "rebuilds (calls ?s2) = 1" "video_proc ?s2 = None"
    using rr1 f1 n1 k by (simp_all add: process_output_rebuilds process_output_processor)
  have rr2: "reaches_render ?e2 ?s2" using k by (simp add: reaches_render_def)
  have n2: "rebuild_needed ?s2 (the (refqueue_get ?e2))" using s2 by (simp add: rebuild_needed_def)
  have "rebuilds (calls (process_output ?e2 ?s2)) = 2"
    using rr2 n2 s2 by (simp add: process_output_rebuilds)
  moreover have "run [?e1, ?e2] ?s = Some (process_output ?e2 ?s2)"
    by (simp add: vf_d3d11sr_process_def r process_reinit_none)
  moreover have "surface_size (sample_frame 2 1280 720) = surface_size (sample_frame 3 1280 720)"
    by (simp add: surface_size_def)
  ultimately show ?thesis by simp
qed

lemma size_changes_Some:
  "size_changes (Some p) xs = length (remdups_adj (p # xs)) - 1"
  by (induction xs arbitrary: p) auto

lemma size_changes_None: "size_changes None xs = length (remdups_adj xs)"
  by (cases xs) (simp_all add: size_changes_Some)

lemma size_changes_le: "size_changes prev xs \<le> length (remdups_adj xs)"
proof (cases prev)
  case None
  then show ?thesis by (simp add: size_changes_None)
next
  case (Some p)
  have "length (remdups_adj (p # xs)) \<le> Suc (length (remdups_adj xs))"
    by (cases xs) auto
  then show ?thesis using Some by (simp add: size_changes_Some)
qed

lemma reaches_render_cong:
  "params s1 = params s \<Longrightarrow> opts s1 = opts s \<Longrightarrow> reaches_render e s1 = reaches_render e s"
  by (simp add: reaches_render_def)

lemma seen_sizes_cong:
  "params s1 = params s \<Longrightarrow> opts s1 = opts s \<Longrightarrow> seen_sizes s1 es = seen_sizes s es"
  by (simp add: seen_sizes_def reaches_render_def)

lemma seen_sizes_Cons:
  "seen_sizes s (e # es) =
     (if reaches_render e s then surface_size (the (refqueue_get e)) # seen_sizes s es
      else seen_sizes s es)"
  by (simp add: seen_sizes_def)

lemma rebuild_needed_recorded:
  "rebuild_needed s inp \<longleftrightarrow> recorded_size s \<noteq> Some (surface_size inp)"
  by (auto simp: rebuild_needed_def recorded_size_def prod_eq_iff)

lemma cycle_rebuilds:
  assumes "execute_reinit e = None" and "\<not> rebuild_fails e"
  shows "\<exists>s1. vf_d3d11sr_process e s = Some s1 \<and> params s1 = params s \<and> opts s1 = opts s \<and>
           rebuilds (calls s1) =
             rebuilds (calls s) +
             (if reaches_render e s \<and> recorded_size s \<noteq> Some (surface_size (the (refqueue_get e)))
              then 1 else 0) \<and>
           recorded_size s1 =
             (if reaches_render e s then Some (surface_size (the (refqueue_get e)))
              else recorded_size s)"
proof -
  let ?s1 = "process_output e s"
  have p: "vf_d3d11sr_process e s = Some ?s1"
    using assms(1) by (simp add: vf_d3d11sr_process_def process_reinit_none)
  have c: "hr_create_processor e \<noteq> None" using assms(2) by (simp add: rebuild_fails_def)
  have r: "rebuilds (calls ?s1) =
             rebuilds (calls s) +
             (if reaches_render e s \<and> recorded_size s \<noteq> Some (surface_size (the (refqueue_get e)))
              then 1 else 0)"
    by (simp add: process_output_rebuilds rebuild_needed_recorded)
  have "recorded_size ?s1 =
             (if reaches_render e s then Some (surface_size (the (refqueue_get e)))
              else recorded_size s)"
  proof (cases "reaches_render e s \<and> rebuild_needed s (the (refqueue_get e))")
    case True
    then show ?thesis using assms(2) c
      by (simp add: recorded_size_def process_output_processor)
  next
    case False
    then have "recorded_size ?s1 = recorded_size s"
      by (auto simp: recorded_size_def process_output_processor)
    then show ?thesis using False by (auto simp: rebuild_needed_recorded)
  qed
  then show ?thesis using p r by (intro exI[of _ ?s1]) simp
qed

lemma run_rebuilds:
  assumes "\<forall>e\<in>set es. execute_reinit e = None \<and> \<not> rebuild_fails e"
  shows "\<exists>s'. run es s = Some s' \<and>
           rebuilds (calls s') =
             rebuilds (calls s) + size_changes (recorded_size s) (seen_sizes s es)"
  using assms
proof (induction es arbitrary: s)
  case Nil
  then show ?case by (simp add: seen_sizes_def)
next
  case (Cons e es)
  then have e: "execute_reinit e = None" "\<not> rebuild_fails e"
    and es: "\<forall>e\<in>set es. execute_reinit e = None \<and> \<not> rebuild_fails e"
    by auto
  from cycle_rebuilds[OF e, of s] obtain s1 where
    s1: "vf_d3d11sr_process e s = Some s1" "params s1 = params s" "opts s1 = opts s"
      "rebuilds (calls s1) =
         rebuilds (calls s) +
         (if reaches_render e s \<and> recorded_size s \<noteq> Some (surface_size (the (refqueue_get e)))
          then 1 else 0)"
      "recorded_size s1 =
         (if reaches_render e s then Some (surface_size (the (refqueue_get e)))
          else recorded_size s)"
    by blast
  from Cons.IH[OF es, of s1] obtain s' where
    s': "run es s1 = Some s'"
      "rebuilds (calls s') = rebuilds (calls s1) + size_changes (recorded_size s1) (seen_sizes s1 es)"
    by blast
  have "seen_sizes s1 es = seen_sizes s es" using s1(2,3) by (rule seen_sizes_cong)
  then have "rebuilds (calls s') =
               rebuilds (calls s) + size_changes (recorded_size s) (seen_sizes s (e # es))"
    using s1(4,5) s'(2) by (auto simp: seen_sizes_Cons)
  then show ?case using s1(1) s'(1) by simp
qed

text \<open>
  C4, amended. \<^verbatim>\<open>render\<close> rebuilds the processor exactly when it has an
  output surface and an input frame and either no processor exists or the
  recorded source size differs from the size of the input surface. Over a
  sequence of cycles without reinit in which no rebuild fails, the number of
  rebuilds is the number of frames whose surface size differs from the size
  recorded before them: at most one per run of equal consecutive sizes, and
  exactly one per run when the sequence starts without a processor.
\<close>

theorem rebuild_on_size_change:
  assumes "\<forall>e\<in>set es. execute_reinit e = None \<and> \<not> rebuild_fails e"
  shows "rebuilds (calls (snd (render e s))) =
           rebuilds (calls s) +
           (if pool_get e \<noteq> None \<and> refqueue_get e \<noteq> None \<and>
               (video_proc s = None \<or> c_w s \<noteq> fst (surface_size (the (refqueue_get e))) \<or>
                c_h s \<noteq> snd (surface_size (the (refqueue_get e))))
            then 1 else 0) \<and>
         (\<exists>s'. run es s = Some s' \<and>
            rebuilds (calls s') = rebuilds (calls s) + size_changes (recorded_size s) (seen_sizes s es) \<and>
            rebuilds (calls s') \<le> rebuilds (calls s) + length (remdups_adj (seen_sizes s es)) \<and>
            (video_proc s = None \<longrightarrow>
               rebuilds (calls s') = rebuilds (calls s) + length (remdups_adj (seen_sizes s es))))"
proof -
  from run_rebuilds[OF assms, of s] obtain s' where
    s': "run es s = Some s'"
      "rebuilds (calls s') = rebuilds (calls s) + size_changes (recorded_size s) (seen_sizes s es)"
    by blast
  have "rebuilds (calls s') \<le> rebuilds (calls s) + length (remdups_adj (seen_sizes s es))"
    using s'(2) size_changes_le[of "recorded_size s" "seen_sizes s es"] by simp
  moreover have "rebuilds (calls s') = rebuilds (calls s) + length (remdups_adj (seen_sizes s es))"
    if "video_proc s = None"
    using s'(2) that by (simp add: recorded_size_def size_changes_None)
  ultimately show ?thesis using s' render_rebuilds[of e s]
    by (auto simp: rebuild_needed_def)
qed

text \<open>
  C4, amended, at three frames of sizes 1280 by 720, 1280 by 720 and 1920 by 1080:
  two rebuilds.
\<close>

theorem rebuild_on_size_change_witness:
  "execute_reinit (sample_env\<lparr>refqueue_get := Some (sample_frame 2 1280 720)\<rparr>) = None \<and>
   \<not> rebuild_fails (sample_env\<lparr>refqueue_get := Some (sample_frame 2 1280 720)\<rparr>) \<and>
   execute_reinit (sample_env\<lparr>refqueue_get := Some (sample_frame 3 1280 720)\<rparr>) = None \<and>
   \<not> rebuild_fails (sample_env\<lparr>refqueue_get := Some (sample_frame 3 1280 720)\<rparr>) \<and>
   execute_reinit (sample_env\<lparr>refqueue_get := Some (sample_frame 4 1920 1080)\<rparr>) = None \<and>
   \<not> rebuild_fails (sample_env\<lparr>refqueue_get := Some (sample_frame 4 1920 1080)\<rparr>) \<and>
   video_proc (playing_state SUPER_RESOLUTION_NVIDIA SUPER_RESOLUTION_1080P) = None \<and>
   (\<exists>s'. run [sample_env\<lparr>refqueue_get := Some (sample_frame 2 1280 720)\<rparr>,
               sample_env\<lparr>refqueue_get := Some (sample_frame 3 1280 720)\<rparr>,
               sample_env\<lparr>refqueue_get := Some (sample_frame 4 1920 1080)\<rparr>]
            (playing_state SUPER_RESOLUTION_NVIDIA SUPER_RESOLUTION_1080P) = Some s' \<and>
         rebuilds (calls s') = 2)"
proof -
  let ?es = "[sample_env\<lparr>refqueue_get := Some (sample_frame 2 1280 720)\<rparr>,
              sample_env\<lparr>refqueue_get := Some (sample_frame 3 1280 720)\<rparr>,
              sample_env\<lparr>refqueue_get := Some (sample_frame 4 1920 1080)\<rparr>]"
  let ?s = "playing_state SUPER_RESOLUTION_NVIDIA SUPER_RESOLUTION_1080P"
  have h: "\<forall>e\<in>set ?es. execute_reinit e = None \<and> \<not> rebuild_fails e"
    by (simp add: rebuild_fails_def)
  have v: "video_proc ?s = None" by simp
  have z: "seen_sizes ?s ?es = [(1280, 720), (1280, 720), (1920, 1080)]"
    by (simp add: seen_sizes_def reaches_render_def surface_size_def)
  from rebuild_on_size_change[OF h, of sample_env ?s] v z h show ?thesis by auto
qed

subsection \<open>A failed rebuild\<close>

text \<open>
  C5. In a cycle that reaches the rebuild test of \<^verbatim>\<open>render\<close> with a rebuild
  due, if the creation of the enumerator, the capability query or the creation
  of the processor fails, then \<^verbatim>\<open>recreate_video_proc\<close> returns -1, the
  processor and enumerator that existed and the enumerator created in this
  attempt are released and none is left in the state, \<^verbatim>\<open>render\<close> returns no
  image, the cycle writes the absent result to the output pin (no frame is
  output), the stream is not marked failed, and every later cycle that reaches
  the rebuild test rebuilds again.
\<close>

theorem rebuild_failure_is_transient:
  assumes "process_reinit e s = Some s1" and "reaches_render e s1"
    and "rebuild_needed s1 (the (refqueue_get e))" and "rebuild_fails e"
  shows "\<exists>s'. vf_d3d11sr_process e s = Some s' \<and>
           fst (recreate_video_proc e s1) = - 1 \<and>
           video_proc s' = None \<and> vp_enum s' = None \<and>
           filter is_release (calls s') =
             filter is_release (calls s1) @
             (case video_proc s1 of None \<Rightarrow> [] | Some h \<Rightarrow> [VideoProcessor_Release h]) @
             (case vp_enum s1 of None \<Rightarrow> [] | Some h \<Rightarrow> [VideoProcessorEnumerator_Release h]) @
             (case hr_create_enumerator e of None \<Rightarrow> []
              | Some h \<Rightarrow> [VideoProcessorEnumerator_Release h]) \<and>
           fst (render e s1) = None \<and>
           last (calls s') = Write_out_pin None \<and>
           out_pin s' = out_pin s \<and> failed s' = failed s \<and>
           (\<forall>e'. execute_reinit e' = None \<and> reaches_render e' s' \<longrightarrow>
              (\<exists>s''. vf_d3d11sr_process e' s' = Some s'' \<and>
                     rebuilds (calls s'') = rebuilds (calls s') + 1))"
proof -
  let ?s' = "process_output e s1"
  have p: "vf_d3d11sr_process e s = Some ?s'" using assms(1) by (simp add: vf_d3d11sr_process_def)
  have k: "failed s1 = failed s" "out_pin s1 = out_pin s"
    using process_reinit_keeps[OF assms(1)] by simp_all
  have rr: "can_output e" "par_w (params s1) mod 2 = 0" "par_h (params s1) mod 2 = 0"
    "mode (opts s1) \<noteq> SUPER_RESOLUTION_OFF" "pool_get e \<noteq> None" "refqueue_get e \<noteq> None"
    using assms(2) by (simp_all add: reaches_render_def)
  have n: "fst (render e s1) = None" using assms(3,4) by (simp add: render_result)
  have c: "calls ?s' = calls (snd (render e s1)) @ [Write_out_pin None]"
    using process_output_last_call[OF rr(1-4)] n by simp
  have vp: "video_proc ?s' = None" "vp_enum ?s' = None"
    using assms(2-4) by (simp_all add: process_output_processor)
  obtain inp where inp: "refqueue_get e = Some inp" using rr(6) by auto
  have rel: "filter is_release (calls ?s') =
             filter is_release (calls s1) @
             (case video_proc s1 of None \<Rightarrow> [] | Some h \<Rightarrow> [VideoProcessor_Release h]) @
             (case vp_enum s1 of None \<Rightarrow> [] | Some h \<Rightarrow> [VideoProcessorEnumerator_Release h]) @
             (case hr_create_enumerator e of None \<Rightarrow> []
              | Some h \<Rightarrow> [VideoProcessorEnumerator_Release h])"
    using render_release[OF rr(5) inp _ assms(4), of s1] assms(3) inp by (simp add: c)
  have o: "out_pin ?s' = out_pin s" "failed ?s' = failed s"
    using rr n k by (simp_all add: process_output_out_pin process_output_failed)
  have retry: "\<exists>s''. vf_d3d11sr_process e' ?s' = Some s'' \<and>
                     rebuilds (calls s'') = rebuilds (calls ?s') + 1"
    if "execute_reinit e' = None \<and> reaches_render e' ?s'" for e'
  proof -
    have "rebuild_needed ?s' (the (refqueue_get e'))" using vp by (simp add: rebuild_needed_def)
    then have "rebuilds (calls (process_output e' ?s')) = rebuilds (calls ?s') + 1"
      using that by (simp add: process_output_rebuilds)
    moreover have "vf_d3d11sr_process e' ?s' = Some (process_output e' ?s')"
      using that by (simp add: vf_d3d11sr_process_def process_reinit_none)
    ultimately show ?thesis by blast
  qed
  have f: "fst (recreate_video_proc e s1) = - 1" using assms(4) by (simp add: recreate_video_proc_fst)
  show ?thesis using p f vp rel n c o retry by (intro exI[of _ ?s']) simp
qed

text \<open>
  C5 at a cycle in which the capability query fails: the enumerator created
  with handle 1 is released, no frame is output, the stream stays alive.
\<close>

theorem rebuild_failure_is_transient_witness:
  "process_reinit (sample_env\<lparr>hr_get_caps := False\<rparr>)
     (playing_state SUPER_RESOLUTION_INTEL SUPER_RESOLUTION_1080P)
     = Some (playing_state SUPER_RESOLUTION_INTEL SUPER_RESOLUTION_1080P) \<and>
   reaches_render (sample_env\<lparr>hr_get_caps := False\<rparr>)
     (playing_state SUPER_RESOLUTION_INTEL SUPER_RESOLUTION_1080P) \<and>
   rebuild_needed (playing_state SUPER_RESOLUTION_INTEL SUPER_RESOLUTION_1080P)
     (the (refqueue_get (sample_env\<lparr>hr_get_caps := False\<rparr>))) \<and>
   rebuild_fails (sample_env\<lparr>hr_get_caps := False\<rparr>) \<and>
   (\<exists>s'. vf_d3d11sr_process (sample_env\<lparr>hr_get_caps := False\<rparr>)
            (playing_state SUPER_RESOLUTION_INTEL SUPER_RESOLUTION_1080P) = Some s' \<and>
         video_proc s' = None \<and> vp_enum s' = None \<and>
         filter is_release (calls s') = [VideoProcessorEnumerator_Release 1] \<and>
         out_pin s' = [] \<and> \<not> failed s')"
proof -
  let ?e = "sample_env\<lparr>hr_get_caps := False\<rparr>"
  let ?s = "playing_state SUPER_RESOLUTION_INTEL SUPER_RESOLUTION_1080P"
  have r: "process_reinit ?e ?s = Some ?s" by (simp add: process_reinit_none)
  have a: "reaches_render ?e ?s" by (simp add: reaches_render_def)
  have b: "rebuild_needed ?s (the (refqueue_get ?e))" by (simp add: rebuild_needed_def)
  have c: "rebuild_fails ?e" by (simp add: rebuild_fails_def)
  from rebuild_failure_is_transient[OF r a b c] r a b c show ?thesis by auto
qed

subsection \<open>Per-frame and terminal failures\<close>

text \<open>
  C6, as the specification states it: it fails in pass-through mode. With the
  mode off and an even size (1920 by 1080), a cycle in which the new reference
  to the input frame cannot be taken marks the stream failed: a terminal failure
  that is neither a bind-time failure nor the parity check.
\<close>

theorem passthrough_reference_failure_counterexample:
  "\<not> failed (sample_state SUPER_RESOLUTION_OFF SUPER_RESOLUTION_AUTO) \<and>
   map_option (\<lambda>s. (failed s, par_w (params s) mod 2, par_h (params s) mod 2))
     (vf_d3d11sr_process
        (sample_env\<lparr>execute_reinit := Some (sample_frame 2 1920 1080), new_ref_ok := False\<rparr>)
        (sample_state SUPER_RESOLUTION_OFF SUPER_RESOLUTION_AUTO))
   = Some (True, 0, 0)"
proof -
  let ?e = "sample_env\<lparr>execute_reinit := Some (sample_frame 2 1920 1080), new_ref_ok := False\<rparr>"
  let ?s = "sample_state SUPER_RESOLUTION_OFF SUPER_RESOLUTION_AUTO"
  have m: "mode (opts ?s) = SUPER_RESOLUTION_OFF" "\<not> failed ?s" by (simp_all add: sample_state_def)
  have x: "execute_reinit ?e = Some (sample_frame 2 1920 1080)" by simp
  have c: "can_output ?e" "\<not> new_ref_ok ?e" by (simp_all add: sample_env_def)
  note r = process_reinit_off[OF m(1) x]
  have p: "par_w (img_params (sample_frame 2 1920 1080)) mod 2 = 0"
    "par_h (img_params (sample_frame 2 1920 1080)) mod 2 = 0"
    by (simp_all add: sample_frame_def)
  show ?thesis
    using m c p by (simp add: vf_d3d11sr_process_def r process_output_failed)
qed

text \<open>
  C6, amended. In every cycle, the filter marks the stream failed (one call of
  \<^verbatim>\<open>mp_filter_internal_mark_failed\<close>) exactly when there is enough input
  and either the size is odd or, with the mode off, the new reference to the
  input frame is not obtained. With a mode on, every per-frame failure (no
  surface from the pool, no input frame, a failed rebuild, a view that cannot be
  created, a failed processing submission) drops the frame: the absent result
  is written to the output pin, nothing is output and the filter does not mark
  the stream failed. Construction is refused exactly when one of its
  acquisitions fails, and a constructed filter is not failed.
\<close>

theorem terminal_failures:
  assumes "process_reinit e s = Some s1"
  shows "\<exists>s'. vf_d3d11sr_process e s = Some s' \<and>
           (failed s' \<longleftrightarrow>
              failed s \<or>
              (can_output e \<and>
               (par_w (params s1) mod 2 \<noteq> 0 \<or> par_h (params s1) mod 2 \<noteq> 0 \<or>
                (mode (opts s) = SUPER_RESOLUTION_OFF \<and>
                 (\<not> new_ref_ok e \<or> refqueue_get e = None))))) \<and>
           filter is_mark_failed (calls s') =
             filter is_mark_failed (calls s) @
             (if can_output e \<and>
                 (par_w (params s1) mod 2 \<noteq> 0 \<or> par_h (params s1) mod 2 \<noteq> 0 \<or>
                  (mode (opts s) = SUPER_RESOLUTION_OFF \<and>
                   (\<not> new_ref_ok e \<or> refqueue_get e = None)))
              then [Mark_failed] else []) \<and>
           (can_output e \<and> par_w (params s1) mod 2 = 0 \<and> par_h (params s1) mod 2 = 0 \<and>
            mode (opts s) \<noteq> SUPER_RESOLUTION_OFF \<and>
            (pool_get e = None \<or> refqueue_get e = None \<or>
             (rebuild_needed s1 (the (refqueue_get e)) \<and> rebuild_fails e) \<or>
             \<not> hr_input_view e \<or> \<not> hr_output_view e \<or> \<not> hr_blt e)
            \<longrightarrow> out_pin s' = out_pin s \<and> failed s' = failed s \<and>
                last (calls s') = Write_out_pin None) \<and>
           (vf_d3d11sr_create b options = None \<longleftrightarrow>
              \<not> filter_created b \<or> \<not> stream_info_found b \<or> \<not> hwdec_ctx_found b \<or>
              \<not> query_video_device_ok b \<or> \<not> immediate_context_found b \<or>
              \<not> query_video_context_ok b) \<and>
           (\<forall>s0. vf_d3d11sr_create b options = Some s0 \<longrightarrow> \<not> failed s0)"
proof -
  let ?s' = "process_output e s1"
  have p: "vf_d3d11sr_process e s = Some ?s'" using assms by (simp add: vf_d3d11sr_process_def)
  have k: "opts s1 = opts s" "failed s1 = failed s" "out_pin s1 = out_pin s"
    using process_reinit_keeps[OF assms] by simp_all
  have f: "failed ?s' \<longleftrightarrow>
              failed s \<or>
              (can_output e \<and>
               (par_w (params s1) mod 2 \<noteq> 0 \<or> par_h (params s1) mod 2 \<noteq> 0 \<or>
                (mode (opts s) = SUPER_RESOLUTION_OFF \<and>
                 (\<not> new_ref_ok e \<or> refqueue_get e = None))))"
    using k by (simp add: process_output_failed)
  have mk: "filter is_mark_failed (calls ?s') =
             filter is_mark_failed (calls s) @
             (if can_output e \<and>
                 (par_w (params s1) mod 2 \<noteq> 0 \<or> par_h (params s1) mod 2 \<noteq> 0 \<or>
                  (mode (opts s) = SUPER_RESOLUTION_OFF \<and>
                   (\<not> new_ref_ok e \<or> refqueue_get e = None)))
              then [Mark_failed] else [])"
    using k process_reinit_marks[OF assms] by (simp add: process_output_marks)
  have d: "out_pin ?s' = out_pin s \<and> failed ?s' = failed s \<and> last (calls ?s') = Write_out_pin None"
    if "can_output e \<and> par_w (params s1) mod 2 = 0 \<and> par_h (params s1) mod 2 = 0 \<and>
        mode (opts s) \<noteq> SUPER_RESOLUTION_OFF \<and>
        (pool_get e = None \<or> refqueue_get e = None \<or>
         (rebuild_needed s1 (the (refqueue_get e)) \<and> rebuild_fails e) \<or>
         \<not> hr_input_view e \<or> \<not> hr_output_view e \<or> \<not> hr_blt e)"
  proof -
    have n: "fst (render e s1) = None" using that by (simp add: render_result)
    have "calls ?s' = calls (snd (render e s1)) @ [Write_out_pin None]"
      using process_output_last_call[of e s1] that k n by simp
    then show ?thesis using that k n by (simp add: process_output_out_pin process_output_failed)
  qed
  have b1: "vf_d3d11sr_create b options = None \<longleftrightarrow>
              \<not> filter_created b \<or> \<not> stream_info_found b \<or> \<not> hwdec_ctx_found b \<or>
              \<not> query_video_device_ok b \<or> \<not> immediate_context_found b \<or>
              \<not> query_video_context_ok b"
    by (simp add: vf_d3d11sr_create_def)
  have b2: "\<forall>s0. vf_d3d11sr_create b options = Some s0 \<longrightarrow> \<not> failed s0"
    by (auto simp: vf_d3d11sr_create_def split: if_splits)
  show ?thesis using p f mk d b1 b2 by (intro exI[of _ ?s']) blast
qed

text \<open>
  C6, amended, at a cycle in which the processing submission fails.
\<close>

theorem terminal_failures_witness:
  "process_reinit (sample_env\<lparr>hr_blt := False\<rparr>)
     (playing_state SUPER_RESOLUTION_NVIDIA SUPER_RESOLUTION_1080P)
     = Some (playing_state SUPER_RESOLUTION_NVIDIA SUPER_RESOLUTION_1080P) \<and>
   can_output (sample_env\<lparr>hr_blt := False\<rparr>) \<and> \<not> hr_blt (sample_env\<lparr>hr_blt := False\<rparr>) \<and>
   (\<exists>s'. vf_d3d11sr_process (sample_env\<lparr>hr_blt := False\<rparr>)
            (playing_state SUPER_RESOLUTION_NVIDIA SUPER_RESOLUTION_1080P) = Some s' \<and>
         \<not> failed s' \<and> out_pin s' = [] \<and> last (calls s') = Write_out_pin None)"
proof -
  let ?e = "sample_env\<lparr>hr_blt := False\<rparr>"
  let ?s = "playing_state SUPER_RESOLUTION_NVIDIA SUPER_RESOLUTION_1080P"
  have r: "process_reinit ?e ?s = Some ?s" by (simp add: process_reinit_none)
  from terminal_failures[OF r, of undefined undefined] r show ?thesis by auto
qed

subsection \<open>Pass-through\<close>

lemma process_output_gpu_off:
  "mode (opts s) = SUPER_RESOLUTION_OFF \<Longrightarrow>
   filter gpu_work (calls (process_output e s)) = filter gpu_work (calls s)"
  by (simp add: process_output_def Let_def split: option.splits)

lemma process_output_new_ref_off:
  "mode (opts s) = SUPER_RESOLUTION_OFF \<Longrightarrow> can_output e \<Longrightarrow> even_params (params s) \<Longrightarrow>
   length (filter is_new_ref (calls (process_output e s))) =
     length (filter is_new_ref (calls s)) + 1"
  by (simp add: process_output_def Let_def even_params_def split: option.splits)

lemma passthrough_step:
  assumes "mode (opts s) = SUPER_RESOLUTION_OFF"
  shows "\<exists>s1. vf_d3d11sr_process e s = Some s1 \<and> mode (opts s1) = SUPER_RESOLUTION_OFF \<and>
           filter gpu_work (calls s1) = filter gpu_work (calls s) \<and>
           (even_params (params s) \<and> processed_cycle e \<longrightarrow>
              even_params (params s1) \<and> out_pin s1 = out_pin s @ [the (refqueue_get e)] \<and>
              length (filter is_new_ref (calls s1)) = length (filter is_new_ref (calls s)) + 1 \<and>
              failed s1 = failed s)"
proof -
  obtain s0 where r: "process_reinit e s = Some s0"
    using assms process_reinit_off[of s e] process_reinit_none[of e s]
    by (cases "execute_reinit e") auto
  have k: "opts s0 = opts s" "failed s0 = failed s" "out_pin s0 = out_pin s"
    using process_reinit_keeps[OF r] by simp_all
  have g: "filter gpu_work (calls s0) = filter gpu_work (calls s)" using process_reinit_gpu[OF r] .
  have nr: "filter is_new_ref (calls s0) = filter is_new_ref (calls s)"
    using r assms process_reinit_off[of s e] process_reinit_none[of e s]
    by (cases "execute_reinit e") (auto simp: destroy_video_proc_calls split: option.splits)
  have ev: "even_params (params s0)" if "even_params (params s)" "processed_cycle e"
    using r assms that process_reinit_off[of s e] process_reinit_none[of e s]
    by (cases "execute_reinit e") (auto simp: processed_cycle_def)
  let ?s1 = "process_output e s0"
  have p: "vf_d3d11sr_process e s = Some ?s1" using r by (simp add: vf_d3d11sr_process_def)
  have m: "mode (opts s0) = SUPER_RESOLUTION_OFF" using assms k by simp
  have "even_params (params ?s1) \<and> out_pin ?s1 = out_pin s @ [the (refqueue_get e)] \<and>
        length (filter is_new_ref (calls ?s1)) = length (filter is_new_ref (calls s)) + 1 \<and>
        failed ?s1 = failed s"
    if "even_params (params s) \<and> processed_cycle e"
  proof -
    have e0: "even_params (params s0)" using ev that by simp
    have pc: "can_output e" "new_ref_ok e" "refqueue_get e \<noteq> None"
      using that by (simp_all add: processed_cycle_def)
    show ?thesis
      using e0 pc m k nr process_output_new_ref_off[OF m pc(1) e0] e0[unfolded even_params_def]
      by (auto simp: process_output_out_pin process_output_failed)
  qed
  then show ?thesis using p m g by (intro exI[of _ ?s1]) (simp add: process_output_gpu_off)
qed

text \<open>
  C7. With the mode off, a sequence of cycles makes no pool allocation and no
  GPU call at all; if the size is even and every one of the N cycles is
  processed (enough input, a frame in the queue, the reference obtained), it
  takes N new references and writes to the output exactly the N input frames,
  unchanged and in order, without marking the stream failed.
\<close>

theorem passthrough_mode:
  assumes "mode (opts s) = SUPER_RESOLUTION_OFF"
  shows "\<exists>s'. run es s = Some s' \<and>
           filter gpu_work (calls s') = filter gpu_work (calls s) \<and>
           (even_params (params s) \<and> (\<forall>e\<in>set es. processed_cycle e) \<longrightarrow>
              out_pin s' = out_pin s @ map (\<lambda>e. the (refqueue_get e)) es \<and>
              length (filter is_new_ref (calls s')) = length (filter is_new_ref (calls s)) + length es \<and>
              failed s' = failed s)"
  using assms
proof (induction es arbitrary: s)
  case Nil
  then show ?case by simp
next
  case (Cons e es)
  from passthrough_step[OF Cons.prems, of e] obtain s1 where
    s1: "vf_d3d11sr_process e s = Some s1" "mode (opts s1) = SUPER_RESOLUTION_OFF"
      "filter gpu_work (calls s1) = filter gpu_work (calls s)"
      "even_params (params s) \<and> processed_cycle e \<longrightarrow>
         even_params (params s1) \<and> out_pin s1 = out_pin s @ [the (refqueue_get e)] \<and>
         length (filter is_new_ref (calls s1)) = length (filter is_new_ref (calls s)) + 1 \<and>
         failed s1 = failed s"
    by blast
  from Cons.IH[OF s1(2)] obtain s' where
    s': "run es s1 = Some s'" "filter gpu_work (calls s') = filter gpu_work (calls s1)"
      "even_params (params s1) \<and> (\<forall>e\<in>set es. processed_cycle e) \<longrightarrow>
         out_pin s' = out_pin s1 @ map (\<lambda>e. the (refqueue_get e)) es \<and>
         length (filter is_new_ref (calls s')) = length (filter is_new_ref (calls s1)) + length es \<and>
         failed s' = failed s1"
    by blast
  show ?case using s1 s' by (intro exI[of _ s']) auto
qed

text \<open>
  C7 at two processed cycles: two frames are passed through.
\<close>

theorem passthrough_mode_witness:
  "mode (opts (sample_state SUPER_RESOLUTION_OFF SUPER_RESOLUTION_AUTO)) = SUPER_RESOLUTION_OFF \<and>
   even_params (params (sample_state SUPER_RESOLUTION_OFF SUPER_RESOLUTION_AUTO)) \<and>
   processed_cycle (sample_env\<lparr>execute_reinit := Some (sample_frame 2 1920 1080),
                               refqueue_get := Some (sample_frame 2 1920 1080)\<rparr>) \<and>
   processed_cycle (sample_env\<lparr>refqueue_get := Some (sample_frame 3 1920 1080)\<rparr>) \<and>
   (\<exists>s'. run [sample_env\<lparr>execute_reinit := Some (sample_frame 2 1920 1080),
                          refqueue_get := Some (sample_frame 2 1920 1080)\<rparr>,
               sample_env\<lparr>refqueue_get := Some (sample_frame 3 1920 1080)\<rparr>]
            (sample_state SUPER_RESOLUTION_OFF SUPER_RESOLUTION_AUTO) = Some s' \<and>
         out_pin s' = [sample_frame 2 1920 1080, sample_frame 3 1920 1080] \<and>
         filter gpu_work (calls s') = [] \<and> \<not> failed s')"
proof -
  let ?es = "[sample_env\<lparr>execute_reinit := Some (sample_frame 2 1920 1080),
                          refqueue_get := Some (sample_frame 2 1920 1080)\<rparr>,
               sample_env\<lparr>refqueue_get := Some (sample_frame 3 1920 1080)\<rparr>]"
  let ?s = "sample_state SUPER_RESOLUTION_OFF SUPER_RESOLUTION_AUTO"
  have m: "mode (opts ?s) = SUPER_RESOLUTION_OFF" by simp
  have ev: "even_params (params ?s)" by (simp add: even_params_def)
  have pc: "\<forall>e\<in>set ?es. processed_cycle e" by (simp add: processed_cycle_def even_params_def)
  from passthrough_mode[OF m, of ?es] m ev pc show ?thesis by auto
qed

subsection \<open>The vendor adapters\<close>

lemma vendor_adapter_calls:
  "calls (vendor_adapter e s) =
     (case mode (opts s) of
        SUPER_RESOLUTION_OFF \<Rightarrow> calls s
      | SUPER_RESOLUTION_NVIDIA \<Rightarrow> calls (SetSuperResNvidia e s)
      | SUPER_RESOLUTION_INTEL \<Rightarrow> calls (SetSuperResIntel e s))"
  by (simp add: vendor_adapter_def split: sr_mode.splits)

lemma render_submit_calls:
  "hr_input_view e \<Longrightarrow> hr_output_view e \<Longrightarrow>
   calls (snd (render_submit e sub out s)) =
     calls (vendor_adapter e
              (do_call CreateVideoProcessorOutputView
                 (do_call (CreateVideoProcessorInputView sub) (do_call SetStreamFrameFormat s)))) @
     [VideoProcessorBlt (is_second_field e)] @
     (if hr_blt e then [InputView_Release, OutputView_Release]
      else [MP_ERR ''VideoProcessorBlt failed.'', InputView_Release, OutputView_Release, Image_free])"
  by (simp add: render_submit_def Let_def cleanup_calls)

text \<open>
  C8. The Intel adapter attempts version negotiation, preprocessing mode and
  scaling function in this order and stops at the first failure, logging it; the
  Nvidia adapter makes its one call and logs a failure. Neither changes
  anything but the call log. In \<^verbatim>\<open>render\<close> the processing submission follows
  the adapter's calls whatever they returned, and whether \<^verbatim>\<open>render\<close> returns
  an image depends on the pool, the queue, the rebuild, the views and the
  submission only, never on the result of a vendor call.
\<close>

theorem vendor_failure_is_harmless:
  "calls (SetSuperResIntel e s) =
     calls s @
     take (if \<not> hr_vpe_version e then 1 else if \<not> hr_vpe_mode e then 2 else 3)
       [SetOutputExtension GUID_INTEL_VPE_INTERFACE [kIntelVpeFnVersion, kIntelVpeVersion3],
        SetOutputExtension GUID_INTEL_VPE_INTERFACE [kIntelVpeFnMode, kIntelVpeModePreproc],
        SetStreamExtension GUID_INTEL_VPE_INTERFACE [kIntelVpeFnScaling, kIntelVpeScalingSuperResolution]] @
     (if hr_vpe_version e \<and> hr_vpe_mode e \<and> hr_vpe_scaling e then []
      else [MP_ERR ''Failed to enable Intel RES.'']) \<and>
   calls (SetSuperResNvidia e s) =
     calls s @ [SetStreamExtension kNvidiaPPEInterfaceGUID
                  [kStreamExtensionVersionV1, kStreamExtensionMethodSuperResolution, 1]]
             @ (if hr_nvidia_extension e then [] else [MP_ERR ''Failed to enable Nvidia RTX Super RES.'']) \<and>
   failed (vendor_adapter e s) = failed s \<and> out_pin (vendor_adapter e s) = out_pin s \<and>
   video_proc (vendor_adapter e s) = video_proc s \<and>
   (hr_input_view e \<and> hr_output_view e \<longrightarrow>
      calls (snd (render_submit e sub out s)) =
        calls (vendor_adapter e
                 (do_call CreateVideoProcessorOutputView
                    (do_call (CreateVideoProcessorInputView sub) (do_call SetStreamFrameFormat s)))) @
        [VideoProcessorBlt (is_second_field e)] @
        (if hr_blt e then [InputView_Release, OutputView_Release]
         else [MP_ERR ''VideoProcessorBlt failed.'', InputView_Release, OutputView_Release, Image_free])) \<and>
   fst (render_submit e sub out s) =
     (if hr_input_view e \<and> hr_output_view e \<and> hr_blt e then Some out else None) \<and>
   (fst (render e s) = None \<longleftrightarrow>
      pool_get e = None \<or> refqueue_get e = None \<or>
      (rebuild_needed s (the (refqueue_get e)) \<and> rebuild_fails e) \<or>
      \<not> hr_input_view e \<or> \<not> hr_output_view e \<or> \<not> hr_blt e) \<and>
   failed (snd (render e s)) = failed s"
  using SetSuperResIntel_calls[of e s] SetSuperResNvidia_calls[of e s]
    render_submit_calls[of e sub out s] render_submit_fst[of e sub out s] render_result[of e s]
  by simp

text \<open>
  C8 at a cycle in which the second Intel call fails: the third is not
  attempted, the submission follows, and the frame completes.
\<close>

theorem vendor_failure_is_harmless_witness:
  "hr_input_view (sample_env\<lparr>hr_vpe_mode := False\<rparr>) \<and>
   hr_output_view (sample_env\<lparr>hr_vpe_mode := False\<rparr>) \<and>
   calls (snd (render_submit (sample_env\<lparr>hr_vpe_mode := False\<rparr>) 0 (sample_frame 9 1920 1080)
                 (playing_state SUPER_RESOLUTION_INTEL SUPER_RESOLUTION_1080P))) =
     [Pool_clear, SetStreamFrameFormat, CreateVideoProcessorInputView 0,
      CreateVideoProcessorOutputView,
      SetOutputExtension GUID_INTEL_VPE_INTERFACE [kIntelVpeFnVersion, kIntelVpeVersion3],
      SetOutputExtension GUID_INTEL_VPE_INTERFACE [kIntelVpeFnMode, kIntelVpeModePreproc],
      MP_ERR ''Failed to enable Intel RES.'',
      VideoProcessorBlt False, InputView_Release, OutputView_Release] \<and>
   fst (render (sample_env\<lparr>hr_vpe_mode := False\<rparr>)
          (playing_state SUPER_RESOLUTION_INTEL SUPER_RESOLUTION_1080P)) \<noteq> None"
proof -
  let ?e = "sample_env\<lparr>hr_vpe_mode := False\<rparr>"
  let ?s = "playing_state SUPER_RESOLUTION_INTEL SUPER_RESOLUTION_1080P"
  let ?s3 = "do_call CreateVideoProcessorOutputView
               (do_call (CreateVideoProcessorInputView 0) (do_call SetStreamFrameFormat ?s))"
  note t = vendor_failure_is_harmless[of ?e ?s 0 "sample_frame 9 1920 1080"]
  note t3 = vendor_failure_is_harmless[of ?e ?s3 0 "sample_frame 9 1920 1080"]
  have v: "calls (vendor_adapter ?e ?s3) = calls (SetSuperResIntel ?e ?s3)"
    by (simp add: vendor_adapter_def)
  have i: "calls (SetSuperResIntel ?e ?s3) =
             [Pool_clear, SetStreamFrameFormat, CreateVideoProcessorInputView 0,
      CreateVideoProcessorOutputView,
              SetOutputExtension GUID_INTEL_VPE_INTERFACE [kIntelVpeFnVersion, kIntelVpeVersion3],
              SetOutputExtension GUID_INTEL_VPE_INTERFACE [kIntelVpeFnMode, kIntelVpeModePreproc],
              MP_ERR ''Failed to enable Intel RES.'']"
    using t3 by simp
  have rf: "\<not> rebuild_fails ?e" by (simp add: rebuild_fails_def)
  show ?thesis using t v i rf by simp
qed

subsection \<open>Reinit\<close>

lemma scale_window_bound:
  assumes "scale_window sc in_fmt = Some (window_w, window_h)"
    and "img_w in_fmt \<le> 10922" "img_h in_fmt \<le> 10922"
  shows "window_w \<le> 32768 \<and> window_h \<le> 32768"
  using assms
  by (cases sc) (auto simp: scale_window_def int_mul_def split: bind_splits if_splits)

lemma scale_window_defined:
  assumes "1 \<le> img_w in_fmt" "img_w in_fmt \<le> 10922" "1 \<le> img_h in_fmt" "img_h in_fmt \<le> 10922"
  shows "\<exists>window_w window_h. scale_window sc in_fmt = Some (window_w, window_h)"
  using assms
  by (cases sc) (auto simp: scale_window_def int_mul_def INT_MIN_def INT_MAX_def)

text \<open>
  C9. Whenever the queue reports a reinit, the filter clears the output pool
  in full (no surface issued before remains) and discards the processor and its
  enumerator; the stream parameters become those of the reinit frame; the
  output parameters are the input parameters, except that with a
  super-resolution mode enabled their size is the one \<open>get_render_size\<close>
  computes against the window of the scale option and their hardware subformat
  is NV12 (as is the texture format of the pool). The reinit step has a result
  with the mode off, and with a mode on for every frame size from 1 to 10922.
\<close>

theorem reinit_resets_state:
  assumes "execute_reinit e = Some in_fmt"
  shows "(\<forall>s1. process_reinit e s = Some s1 \<longrightarrow>
            pool s1 = [] \<and> video_proc s1 = None \<and> vp_enum s1 = None \<and>
            params s1 = img_params in_fmt \<and>
            (mode (opts s) = SUPER_RESOLUTION_OFF \<longrightarrow>
               out_params s1 = img_params in_fmt \<and> out_format s1 = out_format s) \<and>
            (mode (opts s) \<noteq> SUPER_RESOLUTION_OFF \<longrightarrow>
               (\<exists>window_w window_h out_w out_h.
                  scale_window (scale (opts s)) in_fmt = Some (window_w, window_h) \<and>
                  get_render_size (par_w (img_params in_fmt)) (par_h (img_params in_fmt))
                    window_w window_h = Some (out_w, out_h) \<and>
                  out_params s1 = (img_params in_fmt)
                    \<lparr>par_w := out_w, par_h := out_h, par_hw_subfmt := IMGFMT_NV12\<rparr> \<and>
                  out_format s1 = DXGI_FORMAT_NV12))) \<and>
         (mode (opts s) = SUPER_RESOLUTION_OFF \<or>
          (img_w in_fmt = par_w (img_params in_fmt) \<and> img_h in_fmt = par_h (img_params in_fmt) \<and>
           1 \<le> img_w in_fmt \<and> img_w in_fmt \<le> 10922 \<and> 1 \<le> img_h in_fmt \<and> img_h in_fmt \<le> 10922)
          \<longrightarrow> (\<exists>s1. process_reinit e s = Some s1))"
proof (intro conjI allI impI)
  fix s1 assume r: "process_reinit e s = Some s1"
  show "pool s1 = []" "video_proc s1 = None" "vp_enum s1 = None" "params s1 = img_params in_fmt"
    using r assms
    by (auto simp: process_reinit_def Let_def mp_image_pool_clear_def split: if_splits bind_splits)
  {
    assume "mode (opts s) = SUPER_RESOLUTION_OFF"
    then show "out_params s1 = img_params in_fmt" "out_format s1 = out_format s"
      using r assms by (auto simp: process_reinit_def Let_def mp_image_pool_clear_def)
  }
  {
    assume "mode (opts s) \<noteq> SUPER_RESOLUTION_OFF"
    then show "\<exists>window_w window_h out_w out_h.
                  scale_window (scale (opts s)) in_fmt = Some (window_w, window_h) \<and>
                  get_render_size (par_w (img_params in_fmt)) (par_h (img_params in_fmt))
                    window_w window_h = Some (out_w, out_h) \<and>
                  out_params s1 = (img_params in_fmt)
                    \<lparr>par_w := out_w, par_h := out_h, par_hw_subfmt := IMGFMT_NV12\<rparr> \<and>
                  out_format s1 = DXGI_FORMAT_NV12"
      using r assms
      by (auto simp: process_reinit_def Let_def mp_image_pool_clear_def split: bind_splits)
  }
next
  assume d: "mode (opts s) = SUPER_RESOLUTION_OFF \<or>
          (img_w in_fmt = par_w (img_params in_fmt) \<and> img_h in_fmt = par_h (img_params in_fmt) \<and>
           1 \<le> img_w in_fmt \<and> img_w in_fmt \<le> 10922 \<and> 1 \<le> img_h in_fmt \<and> img_h in_fmt \<le> 10922)"
  show "\<exists>s1. process_reinit e s = Some s1"
  proof (cases "mode (opts s) = SUPER_RESOLUTION_OFF")
    case True
    then show ?thesis using assms by (simp add: process_reinit_def Let_def mp_image_pool_clear_def)
  next
    case False
    with d have b: "img_w in_fmt = par_w (img_params in_fmt)" "img_h in_fmt = par_h (img_params in_fmt)"
      "1 \<le> img_w in_fmt" "img_w in_fmt \<le> 10922" "1 \<le> img_h in_fmt" "img_h in_fmt \<le> 10922"
      by auto
    obtain window_w window_h where w: "scale_window (scale (opts s)) in_fmt = Some (window_w, window_h)"
      using scale_window_defined[OF b(3-6)] by blast
    have wb: "window_w \<le> 32768" "window_h \<le> 32768"
      using scale_window_bound[OF w b(4) b(6)] by auto
    obtain out_w out_h where
      g: "get_render_size (par_w (img_params in_fmt)) (par_h (img_params in_fmt)) window_w window_h
            = Some (out_w, out_h)"
      using get_render_size_defined[of "par_w (img_params in_fmt)" "par_h (img_params in_fmt)"
              window_w window_h] b wb by auto
    show ?thesis using assms False w g
      by (simp add: process_reinit_def Let_def mp_image_pool_clear_def)
  qed
qed

text \<open>
  C9 at a reinit to 1280 by 720 with the Intel mode and the 1080p scale, from a
  state with a surface in the pool and a processor: both are gone and the output
  size is 1920 by 1080.
\<close>

theorem reinit_resets_state_witness:
  "execute_reinit (sample_env\<lparr>execute_reinit := Some (sample_frame 1 1280 720)\<rparr>)
     = Some (sample_frame 1 1280 720) \<and>
   (\<exists>s1. process_reinit (sample_env\<lparr>execute_reinit := Some (sample_frame 1 1280 720)\<rparr>)
            ((sample_state SUPER_RESOLUTION_INTEL SUPER_RESOLUTION_1080P)\<lparr>pool := [7], video_proc := Some 3\<rparr>)
          = Some s1 \<and>
         pool s1 = [] \<and> video_proc s1 = None \<and>
         par_w (params s1) = 1280 \<and> par_h (params s1) = 720 \<and>
         par_w (out_params s1) = 1920 \<and> par_h (out_params s1) = 1080 \<and>
         par_hw_subfmt (out_params s1) = IMGFMT_NV12)"
proof -
  let ?e = "sample_env\<lparr>execute_reinit := Some (sample_frame 1 1280 720)\<rparr>"
  let ?s = "(sample_state SUPER_RESOLUTION_INTEL SUPER_RESOLUTION_1080P)\<lparr>pool := [7], video_proc := Some 3\<rparr>"
  have x: "execute_reinit ?e = Some (sample_frame 1 1280 720)" by simp
  have m: "mode (opts ?s) \<noteq> SUPER_RESOLUTION_OFF" "scale (opts ?s) = SUPER_RESOLUTION_1080P"
    by (simp_all add: sample_state_def)
  have f: "img_w (sample_frame 1 1280 720) = 1280" "img_h (sample_frame 1 1280 720) = 720"
    "par_w (img_params (sample_frame 1 1280 720)) = 1280"
    "par_h (img_params (sample_frame 1 1280 720)) = 720"
    by (simp_all add: sample_frame_def)
  note t = reinit_resets_state[OF x, of ?s]
  from t m f obtain s1 where r: "process_reinit ?e ?s = Some s1" by auto
  from t r m have "pool s1 = []" "video_proc s1 = None" "params s1 = img_params (sample_frame 1 1280 720)"
    by blast+
  moreover from t r m obtain window_w window_h out_w out_h where
    w: "scale_window (scale (opts ?s)) (sample_frame 1 1280 720) = Some (window_w, window_h)"
    and g: "get_render_size (par_w (img_params (sample_frame 1 1280 720)))
              (par_h (img_params (sample_frame 1 1280 720))) window_w window_h = Some (out_w, out_h)"
    and o: "out_params s1 = (img_params (sample_frame 1 1280 720))
              \<lparr>par_w := out_w, par_h := out_h, par_hw_subfmt := IMGFMT_NV12\<rparr>"
    by blast
  moreover from w m have "window_w = 1920" "window_h = 1080" by (simp_all add: scale_window_def)
  moreover from this g f have "out_w = 1920" "out_h = 1080" by (simp_all add: grs_1280_720)
  ultimately show ?thesis using x r f by simp
qed

text \<open>
  C10, evaluated on the code. A reinit frame of 1920 by 800 (both even) with the
  scale option 2X: the window is 3840 by 1600, and the output parameters are
  3840 by 1599, not 3840 by 1600. The single-precision aspect ratio 1920/800
  rounds up, the quotient 3840 / aspect falls just below 1600 and rounds to the
  binary32 value below 1600, and the conversion to \<^verbatim>\<open>int\<close> truncates it.
\<close>

theorem reinit_2x_1920x800_output:
  "map_option (\<lambda>s. (par_w (params s), par_h (params s), par_w (out_params s), par_h (out_params s)))
     (process_reinit (sample_env\<lparr>execute_reinit := Some (sample_frame 1 1920 800)\<rparr>)
        (sample_state SUPER_RESOLUTION_NVIDIA SUPER_RESOLUTION_2X))
   = Some (1920, 800, 3840, 1599)"
  by (simp add: process_reinit_def sample_env_def sample_state_def sample_frame_def Let_def
        scale_window_def int_mul_def INT_MIN_def INT_MAX_def grs_1920_800_2x)

end
